theory Spec2Isabelle
  imports Complex_Main
begin

section \<open>Data model of the order store\<close>

text \<open>
  The engine keeps no state of its own: every function reads and writes the tables of an
  external store. The tables are lists of rows (in insertion order); a function of the
  engine takes the store and returns its outcome together with the store it leaves behind,
  so a failure after a write leaves that write in place, as in the source.

  A timestamp column is modelled by the epoch-millisecond value that
  \<^verbatim>\<open>new Date(s).getTime()\<close> reads from it; a nullable column is an \<open>option\<close>.
\<close>

type_synonym timestamp = int

datatype OrderStatus = Preparing | Ready | Collected

datatype PaymentMethod = Cash | Card | Momo | Other

datatype SessionStatus = Open | Paid | Closed | Cancelled

datatype Actor = Vendor | Cashier | System

record DbOrderSession =
  s_id :: string
  s_ticket_code :: string
  s_status :: SessionStatus
  s_created_at :: timestamp

record DbVendor =
  v_id :: string
  v_name :: string
  v_is_active :: bool

record DbMenuItem =
  m_id :: string
  m_name :: string
  m_price_cents :: int
  m_is_active :: bool
  m_is_available :: bool

record DbOrder =
  o_id :: string
  o_order_code :: string
  o_vendor_id :: "string option"
  o_session_id :: "string option"
  o_total_cents :: "int option"
  o_net_cents :: "int option"
  o_tax_cents :: "int option"
  o_tax_rate :: "rat option"
  o_payment_method :: "PaymentMethod option"
  o_status :: OrderStatus
  o_created_at :: "timestamp option"
  o_preparing_at :: "timestamp option"
  o_ready_at :: "timestamp option"
  o_collected_at :: "timestamp option"

record DbOrderItem =
  i_order_id :: string
  i_name_snapshot :: "string option"
  i_unit_price_cents :: int
  i_quantity :: "int option"
  i_notes :: "string option"

record DbOrderEvent =
  ev_order_id :: string
  ev_from_status :: "OrderStatus option"
  ev_to_status :: OrderStatus
  ev_actor :: Actor

text \<open>
  The store, with the two counters of what it and the runtime hand out: \<open>ids\<close> counts
  the row ids generated so far, \<open>draws\<close> the calls of \<^verbatim>\<open>Math.random()\<close>.
\<close>

record world =
  order_sessions :: "DbOrderSession list"
  vendors :: "DbVendor list"
  menu_items :: "DbMenuItem list"
  orders :: "DbOrder list"
  order_items :: "DbOrderItem list"
  order_events :: "DbOrderEvent list"
  ids :: nat
  draws :: nat

text \<open>The calls to the store that the source checks for an error.\<close>

datatype call =
    LoadSession | InsertSession | LoadVendor | FetchMenuItems
  | InsertOrder | InsertOrderItems | InsertOrderEvent
  | LoadOrder | UpdateOrder
  | LoadOrders | LoadVendorNames | LoadOrderItems

text \<open>
  What a call of the engine cannot decide itself: which store calls come back with an
  error (\<open>faults\<close>), the value of the k-th \<^verbatim>\<open>Math.random()\<close>, the k-th id the store
  generates, and the clock.
\<close>

record env =
  faults :: "call \<Rightarrow> bool"
  rnd :: "nat \<Rightarrow> rat"
  new_id :: "nat \<Rightarrow> string"
  now :: timestamp

text \<open>Every \<^verbatim>\<open>throw new Error(...)\<close> of the source, and the TypeError of a failed
  non-null assertion.\<close>

datatype error =
    EmptyOrder \<comment> \<open>Order must contain at least one item.\<close>
  | SessionNotFound \<comment> \<open>Session not found.\<close>
  | FailedToCreateSession \<comment> \<open>Failed to create order session.\<close>
  | VendorNotFound \<comment> \<open>Vendor not found.\<close>
  | VendorNotActive \<comment> \<open>Vendor is not active.\<close>
  | FailedToFetchMenuItems \<comment> \<open>Failed to fetch menu items.\<close>
  | MenuItemsNotFound \<comment> \<open>Some menu items could not be found.\<close>
  | ItemNotAvailable string \<comment> \<open>Item '<name>' is not available.\<close>
  | TypeError \<comment> \<open>reading a property of undefined\<close>
  | FailedToCreateOrder \<comment> \<open>Failed to create order.\<close>
  | FailedToCreateOrderItems \<comment> \<open>Failed to create order items.\<close>
  | OrderIdOrCodeRequired \<comment> \<open>orderId or orderCode is required.\<close>
  | OrderNotFound \<comment> \<open>Order not found.\<close>
  | InvalidStatusTransition OrderStatus OrderStatus
      \<comment> \<open>Invalid status transition <from> -> <to>\<close>
  | FailedToUpdateOrderStatus \<comment> \<open>Failed to update order status.\<close>
  | FailedToLoadOrders \<comment> \<open>Failed to load orders for admin summary.\<close>
  | MissingVendorOrItems \<comment> \<open>Missing vendor or items\<close>
  | UnexpectedServerError \<comment> \<open>Unexpected server error\<close>
  | FailedAfterRetries \<comment> \<open>Failed to create session after retries\<close>

text \<open>JavaScript truthiness of an optional string: neither null/undefined nor empty.\<close>

fun truthy :: "string option \<Rightarrow> bool" where
  "truthy None = False"
| "truthy (Some s) = (s \<noteq> [])"

section \<open>Lifecycle state machine (core/orders.ts)\<close>

fun canTransition :: "OrderStatus \<Rightarrow> OrderStatus \<Rightarrow> bool" where
  "canTransition Preparing Ready = True"
| "canTransition Ready Collected = True"
| "canTransition _ _ = False"

record UpdateOrderStatusInput =
  u_orderId :: "string option"
  u_orderCode :: "string option"
  toStatus :: OrderStatus
  actor :: Actor

text \<open>The later revision of the input type adds the optional timestamp \<open>at\<close>.\<close>

record UpdateOrderStatusInputAt = UpdateOrderStatusInput +
  u_at :: "timestamp option"

record DbOrderMinimal =
  om_id :: string
  om_status :: OrderStatus

text \<open>
  The query \<^verbatim>\<open>select("id, status").limit(1)\<close>, filtered by id when \<open>orderId\<close> is
  truthy and by order code otherwise: the first matching row of the table.
\<close>

definition loadOrder :: "world \<Rightarrow> 'a UpdateOrderStatusInput_scheme \<Rightarrow> DbOrder option" where
  "loadOrder w input =
     (case u_orderId input of
        Some oid \<Rightarrow>
          if oid \<noteq> [] then find (\<lambda>row. o_id row = oid) (orders w)
          else find (\<lambda>row. Some (o_order_code row) = u_orderCode input) (orders w)
      | None \<Rightarrow> find (\<lambda>row. Some (o_order_code row) = u_orderCode input) (orders w))"

definition updateOrderStatus ::
  "env \<Rightarrow> world \<Rightarrow> UpdateOrderStatusInput \<Rightarrow> (error + DbOrderMinimal) \<times> world" where
  "updateOrderStatus e w input =
     (if \<not> truthy (u_orderId input) \<and> \<not> truthy (u_orderCode input)
      then (Inl OrderIdOrCodeRequired, w)
      else
        case (if faults e LoadOrder then None else loadOrder w input) of
          None \<Rightarrow> (Inl OrderNotFound, w)
        | Some current \<Rightarrow>
            if o_status current = toStatus input
            then (Inr \<lparr>om_id = o_id current, om_status = o_status current\<rparr>, w)
            else if \<not> canTransition (o_status current) (toStatus input)
            then (Inl (InvalidStatusTransition (o_status current) (toStatus input)), w)
            else if faults e UpdateOrder
            then (Inl FailedToUpdateOrderStatus, w)
            else
              let w1 = w\<lparr>orders :=
                         map (\<lambda>row. if o_id row = o_id current
                                     then row\<lparr>o_status := toStatus input\<rparr> else row)
                             (orders w)\<rparr>;
                  w2 = (if faults e InsertOrderEvent then w1
                        else w1\<lparr>order_events := order_events w1 @
                               [\<lparr>ev_order_id = o_id current,
                                 ev_from_status = Some (o_status current),
                                 ev_to_status = toStatus input,
                                 ev_actor = actor input\<rparr>]\<rparr>)
              in (Inr \<lparr>om_id = o_id current, om_status = toStatus input\<rparr>, w2))"


text \<open>
  The later revision of \<^verbatim>\<open>core/orders.ts\<close>: the same state machine, now stamping
  \<open>preparing_at\<close> / \<open>ready_at\<close> / \<open>collected_at\<close>. \<open>OrderUpdates\<close> is the
  \<^verbatim>\<open>Partial<DbOrderStatusRow>\<close> sent to the store: a timestamp key that is absent
  (\<open>None\<close>) leaves the column as it is.
\<close>

record OrderUpdates =
  up_status :: OrderStatus
  up_preparing_at :: "timestamp option"
  up_ready_at :: "timestamp option"
  up_collected_at :: "timestamp option"

definition applyUpdates :: "OrderUpdates \<Rightarrow> DbOrder \<Rightarrow> DbOrder" where
  "applyUpdates updates row =
     row\<lparr>o_status := up_status updates,
         o_preparing_at :=
           (case up_preparing_at updates of None \<Rightarrow> o_preparing_at row | Some t \<Rightarrow> Some t),
         o_ready_at :=
           (case up_ready_at updates of None \<Rightarrow> o_ready_at row | Some t \<Rightarrow> Some t),
         o_collected_at :=
           (case up_collected_at updates of None \<Rightarrow> o_collected_at row | Some t \<Rightarrow> Some t)\<rparr>"

definition updateOrderStatus_at ::
  "env \<Rightarrow> world \<Rightarrow> UpdateOrderStatusInputAt \<Rightarrow> (error + DbOrderMinimal) \<times> world" where
  "updateOrderStatus_at e w input =
     (if \<not> truthy (u_orderId input) \<and> \<not> truthy (u_orderCode input)
      then (Inl OrderIdOrCodeRequired, w)
      else
        let at_time = (case u_at input of None \<Rightarrow> now e | Some t \<Rightarrow> t) in
        case (if faults e LoadOrder then None else loadOrder w input) of
          None \<Rightarrow> (Inl OrderNotFound, w)
        | Some current \<Rightarrow>
            if o_status current = toStatus input
            then (Inr \<lparr>om_id = o_id current, om_status = o_status current\<rparr>, w)
            else if \<not> canTransition (o_status current) (toStatus input)
            then (Inl (InvalidStatusTransition (o_status current) (toStatus input)), w)
            else
              let updates =
                    \<lparr>up_status = toStatus input,
                     up_preparing_at =
                       (if toStatus input = Preparing \<and> o_preparing_at current = None
                        then Some at_time else None),
                     up_ready_at =
                       (if toStatus input = Ready \<and> o_ready_at current = None
                        then Some at_time else None),
                     up_collected_at =
                       (if toStatus input = Collected \<and> o_collected_at current = None
                        then Some at_time else None)\<rparr>
              in
              if faults e UpdateOrder
              then (Inl FailedToUpdateOrderStatus, w)
              else
                let w1 = w\<lparr>orders :=
                           map (\<lambda>row. if o_id row = o_id current
                                       then applyUpdates updates row else row)
                               (orders w)\<rparr>;
                    w2 = (if faults e InsertOrderEvent then w1
                          else w1\<lparr>order_events := order_events w1 @
                                 [\<lparr>ev_order_id = o_id current,
                                   ev_from_status = Some (o_status current),
                                   ev_to_status = toStatus input,
                                   ev_actor = actor input\<rparr>]\<rparr>)
                in (Inr \<lparr>om_id = o_id current, om_status = toStatus input\<rparr>, w2))"

text \<open>A sequence of status-update calls, each with its own environment; a call that
  fails leaves the store as it found it and the next call goes on from there.\<close>

fun updateOrderStatus_calls ::
  "(env \<times> UpdateOrderStatusInputAt) list \<Rightarrow> world \<Rightarrow> world" where
  "updateOrderStatus_calls [] w = w"
| "updateOrderStatus_calls ((e, input) # cs) w =
     updateOrderStatus_calls cs (snd (updateOrderStatus_at e w input))"

section \<open>Code generator\<close>

definition digit_char :: "nat \<Rightarrow> char" where
  "digit_char d = ''0123456789'' ! d"

fun show_nat :: "nat \<Rightarrow> string" where
  "show_nat n =
     (if n < 10 then [digit_char n]
      else show_nat (n div 10) @ [digit_char (n mod 10)])"

declare show_nat.simps [simp del]

text \<open>\<^verbatim>\<open>Math.floor(1000 + Math.random() * 9000)\<close> after the prefix and a dash; \<open>r\<close> is
  the value of \<^verbatim>\<open>Math.random()\<close>.\<close>

definition generateSimpleCode :: "string \<Rightarrow> rat \<Rightarrow> string" where
  "generateSimpleCode prefix r = prefix @ ''-'' @ show_nat (nat \<lfloor>1000 + r * 9000\<rfloor>)"

text \<open>\<^verbatim>\<open>Math.round\<close>: the nearest integer, a tie going up.\<close>

definition Math_round :: "rat \<Rightarrow> int" where
  "Math_round x = \<lfloor>x + 1 / 2\<rfloor>"

section \<open>JavaScript numbers\<close>

text \<open>
  A JavaScript number is an IEEE-754 double; a finite one is the rational it denotes. An
  integer is held exactly up to \<open>2^53\<close>, and quantities, prices and their sums are
  modelled as integers. Where the source divides or adds numbers that are not integers
  and the rounding of the result decides a stored value, the operation is modelled as
  the exact result rounded to the nearest double, a tie going to the even significand:
  53 significant bits, the exponent bounded below as for the subnormal numbers. The
  results met here stay far below the largest double, so no infinity arises.
\<close>

fun ilog2 :: "nat \<Rightarrow> nat" where
  "ilog2 n = (if n < 2 then 0 else Suc (ilog2 (n div 2)))"

declare ilog2.simps [simp del]

definition pow2 :: "int \<Rightarrow> rat" where
  "pow2 k = (if k \<ge> 0 then 2 ^ nat k else 1 / 2 ^ nat (- k))"

text \<open>The binary exponent of a positive number: the \<open>k\<close> with \<open>2^k \<le> x < 2^(k+1)\<close>.\<close>

definition exponent_of :: "rat \<Rightarrow> int" where
  "exponent_of x =
     (if x \<ge> 1 then int (ilog2 (nat \<lfloor>x\<rfloor>))
      else - int (ilog2 (nat \<lceil>1 / x\<rceil> - 1)) - 1)"

definition round_half_even :: "rat \<Rightarrow> int" where
  "round_half_even y =
     (let f = \<lfloor>y\<rfloor> in
      if y - of_int f < 1 / 2 then f
      else if y - of_int f > 1 / 2 then f + 1
      else if even f then f else f + 1)"

text \<open>The double nearest to a positive number: a multiple of \<open>2^q\<close>, where \<open>q\<close> leaves
  53 bits to the significand.\<close>

definition nearest_double :: "rat \<Rightarrow> rat" where
  "nearest_double x =
     (let q = max (exponent_of x - 52) (- 1074)
      in of_int (round_half_even (x / pow2 q)) * pow2 q)"

definition to_double :: "rat \<Rightarrow> rat" where
  "to_double x =
     (if x = 0 then 0
      else if x > 0 then nearest_double x
      else - nearest_double (- x))"

text \<open>The operators \<^verbatim>\<open>/\<close> and \<^verbatim>\<open>+\<close> on numbers.\<close>

definition js_div :: "rat \<Rightarrow> rat \<Rightarrow> rat" where
  "js_div a b = to_double (a / b)"

definition js_add :: "rat \<Rightarrow> rat \<Rightarrow> rat" where
  "js_add a b = to_double (a + b)"

section \<open>Ticket (session) manager\<close>

text \<open>\<^verbatim>\<open>.single()\<close>: the row when the query has exactly one, an error otherwise.\<close>

definition single_row :: "'a list \<Rightarrow> 'a option" where
  "single_row rows = (case rows of [r] \<Rightarrow> Some r | _ \<Rightarrow> None)"

text \<open>
  Modelled from the spec: the store's uniqueness constraints on \<open>ticket_code\<close> and
  \<open>order_code\<close> (the schema is not part of the sources). An insert fails when the store
  call faults or the code is already taken; the store fills in the id and \<open>created_at\<close>.
\<close>

definition insertSession :: "env \<Rightarrow> world \<Rightarrow> string \<Rightarrow> (DbOrderSession \<times> world) option" where
  "insertSession e w ticket_code =
     (if faults e InsertSession \<or> ticket_code \<in> set (map s_ticket_code (order_sessions w))
      then None
      else
        let data = \<lparr>s_id = new_id e (ids w), s_ticket_code = ticket_code,
                    s_status = Open, s_created_at = now e\<rparr>
        in Some (data, w\<lparr>order_sessions := order_sessions w @ [data], ids := Suc (ids w)\<rparr>))"

definition insertOrder :: "env \<Rightarrow> world \<Rightarrow> DbOrder \<Rightarrow> (DbOrder \<times> world) option" where
  "insertOrder e w row =
     (if faults e InsertOrder \<or> o_order_code row \<in> set (map o_order_code (orders w))
      then None
      else
        let order = row\<lparr>o_id := new_id e (ids w), o_created_at := Some (now e)\<rparr>
        in Some (order, w\<lparr>orders := orders w @ [order], ids := Suc (ids w)\<rparr>))"

text \<open>\<open>ensureSession\<close> is written out twice in the sources (\<^verbatim>\<open>core/orders.ts\<close> and the
  create route), the same but for the columns selected.\<close>

definition ensureSession ::
  "env \<Rightarrow> world \<Rightarrow> string option \<Rightarrow> (error + DbOrderSession) \<times> world" where
  "ensureSession e w sessionId =
     (if truthy sessionId then
        (case (if faults e LoadSession then None
               else single_row (filter (\<lambda>s. Some (s_id s) = sessionId) (order_sessions w))) of
           None \<Rightarrow> (Inl SessionNotFound, w)
         | Some data \<Rightarrow> (Inr data, w))
      else
        let ticket_code = generateSimpleCode ''WL'' (rnd e (draws w));
            w1 = w\<lparr>draws := Suc (draws w)\<rparr>
        in case insertSession e w1 ticket_code of
             None \<Rightarrow> (Inl FailedToCreateSession, w1)
           | Some (data, w2) \<Rightarrow> (Inr data, w2))"

text \<open>
  The standalone ticket route (\<^verbatim>\<open>app/api/sessions/start/route.ts\<close>): up to five
  inserts, a fresh code after each failure. The first argument of the loop is the number
  of iterations left. The route leaves the status to the column default, taken to be
  \<open>open\<close> as in \<open>ensureSession\<close>.
\<close>

fun sessions_start_loop ::
  "env \<Rightarrow> nat \<Rightarrow> string \<Rightarrow> world \<Rightarrow> ((nat \<times> error) + DbOrderSession) \<times> world" where
  "sessions_start_loop e 0 ticket_code w = (Inl (500, FailedAfterRetries), w)"
| "sessions_start_loop e (Suc n) ticket_code w =
     (case insertSession e w ticket_code of
        Some (data, w1) \<Rightarrow> (Inr data, w1)
      | None \<Rightarrow>
          sessions_start_loop e n (generateSimpleCode ''WL'' (rnd e (draws w)))
            (w\<lparr>draws := Suc (draws w)\<rparr>))"

definition POST_sessions_start ::
  "env \<Rightarrow> world \<Rightarrow> ((nat \<times> error) + DbOrderSession) \<times> world" where
  "POST_sessions_start e w =
     sessions_start_loop e 5 (generateSimpleCode ''WL'' (rnd e (draws w)))
       (w\<lparr>draws := Suc (draws w)\<rparr>)"

section \<open>Order engine\<close>

text \<open>Quantities and prices in cents are integers; a tax rate is a finite JavaScript
  number, given as the rational it denotes.\<close>

record CreateOrderItemInput =
  menuItemId :: string
  quantity :: int
  li_notes :: "string option"

record CreateOrderInput =
  vendorId :: string
  items :: "CreateOrderItemInput list"
  paymentMethod :: PaymentMethod
  taxRate :: "rat option"
  sessionId :: "string option"

record CreatedOrderResult =
  r_orderId :: string
  r_orderCode :: string
  r_vendorId :: "string option"
  r_totalCents :: "int option"
  r_sessionId :: "string option"
  r_ticketCode :: string

text \<open>An element of \<^verbatim>\<open>orderItemsToInsert\<close>, before the order id is known.\<close>

record OrderItemDraft =
  name_snapshot :: string
  unit_price_cents :: int
  d_quantity :: int
  d_notes :: "string option"

text \<open>
  \<^verbatim>\<open>input.items.map((line) => ...)\<close> with its running \<^verbatim>\<open>totalCents += lineTotal\<close>:
  the third argument is \<open>totalCents\<close> so far, the result the drafts and the final
  \<open>totalCents\<close>. \<open>None\<close> is the TypeError of \<^verbatim>\<open>menuItems.find(...)!\<close> finding nothing.
\<close>

fun orderItemsToInsert ::
  "DbMenuItem list \<Rightarrow> CreateOrderItemInput list \<Rightarrow> int \<Rightarrow> (OrderItemDraft list \<times> int) option" where
  "orderItemsToInsert menuItems [] totalCents = Some ([], totalCents)"
| "orderItemsToInsert menuItems (line # rest) totalCents =
     (case find (\<lambda>m. m_id m = menuItemId line) menuItems of
        None \<Rightarrow> None
      | Some menuItem \<Rightarrow>
          let lineTotal = m_price_cents menuItem * quantity line in
          (case orderItemsToInsert menuItems rest (totalCents + lineTotal) of
             None \<Rightarrow> None
           | Some (drafts, total') \<Rightarrow>
               Some (\<lparr>name_snapshot = m_name menuItem,
                      unit_price_cents = m_price_cents menuItem,
                      d_quantity = quantity line,
                      d_notes = li_notes line\<rparr> # drafts, total')))"

definition orderItemsPayload :: "DbOrder \<Rightarrow> OrderItemDraft list \<Rightarrow> DbOrderItem list" where
  "orderItemsPayload order drafts =
     map (\<lambda>oi. \<lparr>i_order_id = o_id order,
                 i_name_snapshot = Some (name_snapshot oi),
                 i_unit_price_cents = unit_price_cents oi,
                 i_quantity = Some (d_quantity oi),
                 i_notes = d_notes oi\<rparr>) drafts"

text \<open>\<open>createOrder\<close> of \<^verbatim>\<open>src/core/orders.ts\<close>.\<close>

definition createOrder ::
  "env \<Rightarrow> world \<Rightarrow> CreateOrderInput \<Rightarrow> (error + CreatedOrderResult) \<times> world" where
  "createOrder e w input =
     (if items input = [] then (Inl EmptyOrder, w)
      else
        case ensureSession e w (sessionId input) of
          (Inl err, w1) \<Rightarrow> (Inl err, w1)
        | (Inr session, w1) \<Rightarrow>
        case (if faults e LoadVendor then None
              else single_row (filter (\<lambda>v. v_id v = vendorId input) (vendors w1))) of
          None \<Rightarrow> (Inl VendorNotFound, w1)
        | Some vendor \<Rightarrow>
        if \<not> v_is_active vendor then (Inl VendorNotActive, w1)
        else
        let menuItemIds = map menuItemId (items input) in
        if faults e FetchMenuItems then (Inl FailedToFetchMenuItems, w1)
        else
        let menuItems = filter (\<lambda>m. m_id m \<in> set menuItemIds) (menu_items w1) in
        if length menuItems \<noteq> length menuItemIds then (Inl MenuItemsNotFound, w1)
        else
        case find (\<lambda>item. \<not> m_is_active item \<or> \<not> m_is_available item) menuItems of
          Some item \<Rightarrow> (Inl (ItemNotAvailable (m_name item)), w1)
        | None \<Rightarrow>
        case orderItemsToInsert menuItems (items input) 0 of
          None \<Rightarrow> (Inl TypeError, w1)
        | Some (drafts, totalCents) \<Rightarrow>
        let taxRate = (case taxRate input of None \<Rightarrow> 0 | Some r \<Rightarrow> r);
            netCents = (if taxRate > 0
                        then Math_round (js_div (of_int totalCents) (js_add 1 (js_div taxRate 100)))
                        else totalCents);
            taxCents = totalCents - netCents;
            orderCode = generateSimpleCode ''MS'' (rnd e (draws w1));
            w2 = w1\<lparr>draws := Suc (draws w1)\<rparr>
        in
        case insertOrder e w2
               \<lparr>o_id = [], o_order_code = orderCode, o_vendor_id = Some (vendorId input),
                o_session_id = Some (s_id session), o_total_cents = Some totalCents,
                o_net_cents = Some netCents, o_tax_cents = Some taxCents,
                o_tax_rate = Some taxRate,
                o_payment_method = Some (paymentMethod input),
                o_status = Preparing, o_created_at = None, o_preparing_at = None,
                o_ready_at = None, o_collected_at = None\<rparr> of
          None \<Rightarrow> (Inl FailedToCreateOrder, w2)
        | Some (order, w3) \<Rightarrow>
        if faults e InsertOrderItems then (Inl FailedToCreateOrderItems, w3)
        else
        let w4 = w3\<lparr>order_items := order_items w3 @ orderItemsPayload order drafts\<rparr>;
            w5 = (if faults e InsertOrderEvent then w4
                  else w4\<lparr>order_events := order_events w4 @
                         [\<lparr>ev_order_id = o_id order, ev_from_status = None,
                           ev_to_status = Preparing, ev_actor = Cashier\<rparr>]\<rparr>)
        in (Inr \<lparr>r_orderId = o_id order, r_orderCode = o_order_code order,
                 r_vendorId = o_vendor_id order, r_totalCents = o_total_cents order,
                 r_sessionId = o_session_id order,
                 r_ticketCode = s_ticket_code session\<rparr>, w5))"

text \<open>
  The create route (\<^verbatim>\<open>src/app/api/orders/create/route.ts\<close>): the same steps, answering
  with an HTTP status and a message where \<open>createOrder\<close> throws; whatever is thrown
  inside (by \<open>ensureSession\<close>, or the TypeError) is caught and answered with 500.
\<close>

record IncomingBody =
  b_vendorId :: string
  b_paymentMethod :: "PaymentMethod option"
  b_taxRate :: "rat option"
  b_items :: "CreateOrderItemInput list"
  b_sessionId :: "string option"

definition POST_orders_create ::
  "env \<Rightarrow> world \<Rightarrow> IncomingBody \<Rightarrow> ((nat \<times> error) + CreatedOrderResult) \<times> world" where
  "POST_orders_create e w body =
     (if b_vendorId body = [] \<or> b_items body = [] then (Inl (400, MissingVendorOrItems), w)
      else
        case ensureSession e w (b_sessionId body) of
          (Inl err, w1) \<Rightarrow> (Inl (500, UnexpectedServerError), w1)
        | (Inr session, w1) \<Rightarrow>
        case (if faults e LoadVendor then None
              else single_row (filter (\<lambda>v. v_id v = b_vendorId body) (vendors w1))) of
          None \<Rightarrow> (Inl (400, VendorNotFound), w1)
        | Some vendor \<Rightarrow>
        if \<not> v_is_active vendor then (Inl (400, VendorNotActive), w1)
        else
        let menuItemIds = map menuItemId (b_items body) in
        if faults e FetchMenuItems then (Inl (500, FailedToFetchMenuItems), w1)
        else
        let menuItems = filter (\<lambda>m. m_id m \<in> set menuItemIds) (menu_items w1) in
        if length menuItems \<noteq> length menuItemIds then (Inl (400, MenuItemsNotFound), w1)
        else
        case find (\<lambda>item. \<not> m_is_active item \<or> \<not> m_is_available item) menuItems of
          Some item \<Rightarrow> (Inl (400, ItemNotAvailable (m_name item)), w1)
        | None \<Rightarrow>
        case orderItemsToInsert menuItems (b_items body) 0 of
          None \<Rightarrow> (Inl (500, UnexpectedServerError), w1)
        | Some (drafts, totalCents) \<Rightarrow>
        let appliedTaxRate = (case b_taxRate body of None \<Rightarrow> 0 | Some r \<Rightarrow> r);
            netCents = (if appliedTaxRate > 0
                        then Math_round
                               (js_div (of_int totalCents) (js_add 1 (js_div appliedTaxRate 100)))
                        else totalCents);
            taxCents = totalCents - netCents;
            orderCode = generateSimpleCode ''WL'' (rnd e (draws w1));
            w2 = w1\<lparr>draws := Suc (draws w1)\<rparr>
        in
        case insertOrder e w2
               \<lparr>o_id = [], o_order_code = orderCode, o_vendor_id = Some (b_vendorId body),
                o_session_id = Some (s_id session), o_total_cents = Some totalCents,
                o_net_cents = Some netCents, o_tax_cents = Some taxCents,
                o_tax_rate = Some appliedTaxRate,
                o_payment_method = b_paymentMethod body,
                o_status = Preparing, o_created_at = None, o_preparing_at = None,
                o_ready_at = None, o_collected_at = None\<rparr> of
          None \<Rightarrow> (Inl (500, FailedToCreateOrder), w2)
        | Some (order, w3) \<Rightarrow>
        if faults e InsertOrderItems then (Inl (500, FailedToCreateOrderItems), w3)
        else
        let w4 = w3\<lparr>order_items := order_items w3 @ orderItemsPayload order drafts\<rparr>;
            w5 = (if faults e InsertOrderEvent then w4
                  else w4\<lparr>order_events := order_events w4 @
                         [\<lparr>ev_order_id = o_id order, ev_from_status = None,
                           ev_to_status = Preparing, ev_actor = Cashier\<rparr>]\<rparr>)
        in (Inr \<lparr>r_orderId = o_id order, r_orderCode = o_order_code order,
                 r_vendorId = o_vendor_id order, r_totalCents = o_total_cents order,
                 r_sessionId = Some (s_id session),
                 r_ticketCode = s_ticket_code session\<rparr>, w5))"

section \<open>Aggregation engine (lib/adminDashboard.ts)\<close>

text \<open>Amounts in kwacha and durations in minutes are JavaScript numbers; they are
  modelled as exact rationals.\<close>

record VendorSale =
  vs_vendorId :: string
  vs_vendorName :: string
  vs_total :: rat

record TopItem =
  ti_name :: string
  ti_quantity :: int

record LatestOrder =
  lo_id :: string
  lo_code :: string
  lo_tableNumber :: "string option"
  lo_status :: OrderStatus
  lo_totalAmount :: rat
  lo_createdAt :: "timestamp option"

record AdminSummary =
  ordersToday :: nat
  revenueToday :: rat
  taxToday :: rat
  activeOrders :: nat
  avgPrepMinutesToday :: "rat option"
  vendorSalesToday :: "VendorSale list"
  topVendor :: "VendorSale option"
  topItem :: "TopItem option"
  latestOrders :: "LatestOrder list"

definition DEFAULT_VAT_RATE :: rat where
  "DEFAULT_VAT_RATE = 16"

text \<open>
  A date is the number of its day; the bounds are its first and its last millisecond
  (\<^verbatim>\<open>T00:00:00\<close> and \<^verbatim>\<open>T23:59:59.999\<close>). Without a date the day is that of the clock.
\<close>

definition getDayBounds :: "timestamp \<Rightarrow> int option \<Rightarrow> timestamp \<times> timestamp" where
  "getDayBounds clock date =
     (case date of
        Some d \<Rightarrow> (d * 86400000, d * 86400000 + 86399999)
      | None \<Rightarrow>
          let isoDate = clock div 86400000
          in (isoDate * 86400000, isoDate * 86400000 + 86399999))"

text \<open>The orders query: the rows created within the bounds, newest first.\<close>

definition created_key :: "DbOrder \<Rightarrow> int" where
  "created_key row = (case o_created_at row of Some c \<Rightarrow> - c | None \<Rightarrow> 0)"

definition loadOrders :: "world \<Rightarrow> timestamp \<Rightarrow> timestamp \<Rightarrow> DbOrder list" where
  "loadOrders w start end =
     sort_key created_key
       (filter (\<lambda>row. case o_created_at row of
                         Some c \<Rightarrow> start \<le> c \<and> c \<le> end
                       | None \<Rightarrow> False) (orders w))"

text \<open>\<^verbatim>\<open>Array.from(new Set(safeOrders.map((o) => o.vendor_id).filter(Boolean)))\<close>\<close>

definition vendorIds_of :: "DbOrder list \<Rightarrow> string list" where
  "vendorIds_of safeOrders =
     rev (remdups (rev (map the (filter truthy (map o_vendor_id safeOrders)))))"

text \<open>\<^verbatim>\<open>new Map(vendors.map((v) => [v.id, v.name]))\<close>: a later pair overrides an earlier one.\<close>

definition vendorNames :: "world \<Rightarrow> string list \<Rightarrow> (string \<times> string) list" where
  "vendorNames w vendorIds =
     rev (map (\<lambda>v. (v_id v, v_name v)) (filter (\<lambda>v. v_id v \<in> set vendorIds) (vendors w)))"

text \<open>Step 3, the loop over the day's orders and what it accumulates.\<close>

record DayTotals =
  dt_totalCents :: int
  dt_taxCentsFromDb :: int
  dt_anyNonZeroTax :: bool
  dt_activeOrders :: nat
  dt_prepDurationsMinutes :: "rat list"

definition orNull :: "int option \<Rightarrow> int" where
  "orNull x = (case x of None \<Rightarrow> 0 | Some n \<Rightarrow> n)"

fun dayTotals :: "DbOrder list \<Rightarrow> DayTotals \<Rightarrow> DayTotals" where
  "dayTotals [] acc = acc"
| "dayTotals (row # rest) acc =
     (let t = orNull (o_total_cents row);
          tax = orNull (o_tax_cents row);
          acc1 = acc\<lparr>dt_totalCents := dt_totalCents acc + t,
                     dt_taxCentsFromDb := dt_taxCentsFromDb acc + tax,
                     dt_anyNonZeroTax := (if tax > 0 then True else dt_anyNonZeroTax acc)\<rparr>;
          acc2 = (if o_status row \<noteq> Collected
                  then acc1\<lparr>dt_activeOrders := dt_activeOrders acc1 + 1\<rparr> else acc1);
          acc3 = (case (o_created_at row, o_ready_at row) of
                    (Some created, Some ready) \<Rightarrow>
                      if ready > created
                      then acc2\<lparr>dt_prepDurationsMinutes := dt_prepDurationsMinutes acc2 @
                                  [of_int (ready - created) / (1000 * 60)]\<rparr>
                      else acc2
                  | _ \<Rightarrow> acc2)
      in dayTotals rest acc3)"

text \<open>Step 4: \<open>vendorSalesMap\<close>, a Map in insertion order. \<open>vendorSales_add\<close> is the body
  of the loop for a truthy vendor id: add to the existing entry, or append a new one.\<close>

fun vendorSales_add :: "VendorSale list \<Rightarrow> string \<Rightarrow> string \<Rightarrow> rat \<Rightarrow> VendorSale list" where
  "vendorSales_add [] vid name incKw =
     [\<lparr>vs_vendorId = vid, vs_vendorName = name, vs_total = incKw\<rparr>]"
| "vendorSales_add (existing # others) vid name incKw =
     (if vs_vendorId existing = vid
      then existing\<lparr>vs_total := vs_total existing + incKw\<rparr> # others
      else existing # vendorSales_add others vid name incKw)"

fun vendorSalesMap ::
  "(string \<times> string) list \<Rightarrow> DbOrder list \<Rightarrow> VendorSale list \<Rightarrow> VendorSale list" where
  "vendorSalesMap vendorNameById [] acc = acc"
| "vendorSalesMap vendorNameById (row # rest) acc =
     (case o_vendor_id row of
        None \<Rightarrow> vendorSalesMap vendorNameById rest acc
      | Some vid \<Rightarrow>
          if vid = [] then vendorSalesMap vendorNameById rest acc
          else
            let name = (case map_of vendorNameById vid of
                          Some n \<Rightarrow> n | None \<Rightarrow> ''Unknown vendor'');
                incKw = of_int (orNull (o_total_cents row)) / 100
            in vendorSalesMap vendorNameById rest (vendorSales_add acc vid name incKw))"

text \<open>\<^verbatim>\<open>.sort((a, b) => b.totalKw - a.totalKw)\<close>: a stable sort, largest total first.\<close>

definition sortByTotalDesc :: "VendorSale list \<Rightarrow> VendorSale list" where
  "sortByTotalDesc vs = sort_key (\<lambda>v. - vs_total v) vs"

text \<open>Step 5: \<open>itemTotals\<close>, a Map from item name to summed quantity, and the scan for
  the largest one.\<close>

fun itemTotals_add :: "(string \<times> int) list \<Rightarrow> string \<Rightarrow> int \<Rightarrow> (string \<times> int) list" where
  "itemTotals_add [] name qty = [(name, 0 + qty)]"
| "itemTotals_add ((k, v) # others) name qty =
     (if k = name then (k, v + qty) # others else (k, v) # itemTotals_add others name qty)"

fun itemTotals :: "DbOrderItem list \<Rightarrow> (string \<times> int) list \<Rightarrow> (string \<times> int) list" where
  "itemTotals [] acc = acc"
| "itemTotals (it # rest) acc =
     (let name = (if truthy (i_name_snapshot it) then the (i_name_snapshot it)
                  else ''Unknown item'');
          qty = orNull (i_quantity it)
      in itemTotals rest (itemTotals_add acc name qty))"

fun bestItem :: "(string \<times> int) list \<Rightarrow> string option \<times> int \<Rightarrow> string option \<times> int" where
  "bestItem [] best = best"
| "bestItem ((name, qty) # rest) (bestName, bestQty) =
     (if qty > bestQty then bestItem rest (Some name, qty)
      else bestItem rest (bestName, bestQty))"

definition getAdminSummary :: "env \<Rightarrow> world \<Rightarrow> int option \<Rightarrow> error + AdminSummary" where
  "getAdminSummary e w date =
     (let (start, end) = getDayBounds (now e) date in
      if faults e LoadOrders then Inl FailedToLoadOrders
      else
        let safeOrders = loadOrders w start end;
            vendorIds = vendorIds_of safeOrders;
            vendorNameById =
              (if length vendorIds > 0 \<and> \<not> faults e LoadVendorNames
               then vendorNames w vendorIds else []);
            acc = dayTotals safeOrders
                    \<lparr>dt_totalCents = 0, dt_taxCentsFromDb = 0, dt_anyNonZeroTax = False,
                     dt_activeOrders = 0, dt_prepDurationsMinutes = []\<rparr>;
            ordersToday = length safeOrders;
            revenueToday = of_int (dt_totalCents acc) / 100;
            taxToday =
              (if dt_anyNonZeroTax acc \<and> dt_taxCentsFromDb acc > 0
               then of_int (dt_taxCentsFromDb acc) / 100
               else
                 let divisor = 1 + DEFAULT_VAT_RATE / 100;
                     net = revenueToday / divisor
                 in revenueToday - net);
            avgPrepMinutesToday =
              (if length (dt_prepDurationsMinutes acc) > 0
               then Some (fold (\<lambda>b a. a + b) (dt_prepDurationsMinutes acc) 0 /
                          of_nat (length (dt_prepDurationsMinutes acc)))
               else None);
            vendorSalesToday = sortByTotalDesc (vendorSalesMap vendorNameById safeOrders []);
            topVendor =
              (case vendorSalesToday of
                 [] \<Rightarrow> None
               | v # _ \<Rightarrow> Some \<lparr>vs_vendorId = vs_vendorId v, vs_vendorName = vs_vendorName v,
                                vs_total = vs_total v\<rparr>);
            orderIds = map o_id safeOrders;
            topItem =
              (if length orderIds > 0 \<and> \<not> faults e LoadOrderItems
               then
                 (case bestItem
                         (itemTotals
                            (filter (\<lambda>it. i_order_id it \<in> set orderIds) (order_items w)) [])
                         (None, 0) of
                    (Some bestName, bestQty) \<Rightarrow>
                      if bestName \<noteq> []
                      then Some \<lparr>ti_name = bestName, ti_quantity = bestQty\<rparr> else None
                  | (None, _) \<Rightarrow> None)
               else None);
            latestOrders =
              map (\<lambda>row. \<lparr>lo_id = o_id row, lo_code = o_order_code row,
                           lo_tableNumber = None, lo_status = o_status row,
                           lo_totalAmount = of_int (orNull (o_total_cents row)) / 100,
                           lo_createdAt = o_created_at row\<rparr>)
                  (take 40 safeOrders)
        in Inr \<lparr>ordersToday = ordersToday, revenueToday = revenueToday,
                taxToday = taxToday, activeOrders = dt_activeOrders acc,
                avgPrepMinutesToday = avgPrepMinutesToday,
                vendorSalesToday =
                  map (\<lambda>v. \<lparr>vs_vendorId = vs_vendorId v, vs_vendorName = vs_vendorName v,
                             vs_total = vs_total v\<rparr>) vendorSalesToday,
                topVendor = topVendor, topItem = topItem, latestOrders = latestOrders\<rparr>)"

section \<open>Example stores\<close>

text \<open>An environment in which no store call fails, \<^verbatim>\<open>Math.random()\<close> returns 0 and
  then 1/2, and the store numbers its rows.\<close>

definition env0 :: env where
  "env0 = \<lparr>faults = (\<lambda>_. False), rnd = (\<lambda>k. if k = 0 then 0 else 1 / 2),
           new_id = (\<lambda>k. ''id-'' @ show_nat k), now = 1000\<rparr>"

text \<open>One active vendor with two items on the menu, and one ticket already open.\<close>

definition world0 :: world where
  "world0 =
     \<lparr>order_sessions =
        [\<lparr>s_id = ''s1'', s_ticket_code = ''WL-1000'', s_status = Open, s_created_at = 0\<rparr>],
      vendors = [\<lparr>v_id = ''v1'', v_name = ''Grill'', v_is_active = True\<rparr>],
      menu_items =
        [\<lparr>m_id = ''a'', m_name = ''Item A'', m_price_cents = 1000,
          m_is_active = True, m_is_available = True\<rparr>,
         \<lparr>m_id = ''b'', m_name = ''Item B'', m_price_cents = 500,
          m_is_active = True, m_is_available = True\<rparr>],
      orders = [], order_items = [], order_events = [], ids = 0, draws = 0\<rparr>"

text \<open>The cart of the scenario: two of item A, one of item B, 16 percent tax.\<close>

definition cart0 :: CreateOrderInput where
  "cart0 =
     \<lparr>vendorId = ''v1'',
      items = [\<lparr>menuItemId = ''a'', quantity = 2, li_notes = None\<rparr>,
               \<lparr>menuItemId = ''b'', quantity = 1, li_notes = None\<rparr>],
      paymentMethod = Cash, taxRate = Some 16, sessionId = Some ''s1''\<rparr>"

text \<open>Three orders of that vendor, one in each status; the second became ready three
  minutes after it was created.\<close>

definition order1 :: DbOrder where
  "order1 =
     \<lparr>o_id = ''o1'', o_order_code = ''MS-1111'', o_vendor_id = Some ''v1'',
      o_session_id = Some ''s1'', o_total_cents = Some 2500, o_net_cents = Some 2155,
      o_tax_cents = Some 345, o_tax_rate = Some 16, o_payment_method = Some Cash,
      o_status = Preparing, o_created_at = Some 1000, o_preparing_at = None,
      o_ready_at = None, o_collected_at = None\<rparr>"

definition order2 :: DbOrder where
  "order2 =
     \<lparr>o_id = ''o2'', o_order_code = ''MS-2222'', o_vendor_id = Some ''v1'',
      o_session_id = Some ''s1'', o_total_cents = Some 1000, o_net_cents = Some 1000,
      o_tax_cents = Some 0, o_tax_rate = Some 0, o_payment_method = Some Card,
      o_status = Ready, o_created_at = Some 2000, o_preparing_at = None,
      o_ready_at = Some 182000, o_collected_at = None\<rparr>"

definition order3 :: DbOrder where
  "order3 =
     \<lparr>o_id = ''o3'', o_order_code = ''MS-3333'', o_vendor_id = Some ''v1'',
      o_session_id = Some ''s1'', o_total_cents = Some 500, o_net_cents = Some 500,
      o_tax_cents = Some 0, o_tax_rate = Some 0, o_payment_method = Some Momo,
      o_status = Collected, o_created_at = Some 3000, o_preparing_at = None,
      o_ready_at = Some 63000, o_collected_at = Some 123000\<rparr>"

definition world1 :: world where
  "world1 = world0\<lparr>orders := [order1, order2, order3]\<rparr>"

definition update_by_id :: "string \<Rightarrow> OrderStatus \<Rightarrow> UpdateOrderStatusInput" where
  "update_by_id oid t =
     \<lparr>u_orderId = Some oid, u_orderCode = None, toStatus = t, actor = Vendor\<rparr>"

definition update_at ::
  "string \<Rightarrow> OrderStatus \<Rightarrow> timestamp option \<Rightarrow> UpdateOrderStatusInputAt" where
  "update_at oid t a =
     \<lparr>u_orderId = Some oid, u_orderCode = None, toStatus = t, actor = Vendor, u_at = a\<rparr>"

text \<open>The first order is marked ready at 5000; then the same request again, the order
  collected, a request to go back to ready, and the second order collected.\<close>

definition first_call :: "env \<times> UpdateOrderStatusInputAt" where
  "first_call = (env0, update_at ''o1'' Ready (Some 5000))"

definition later_calls :: "(env \<times> UpdateOrderStatusInputAt) list" where
  "later_calls =
     [(env0, update_at ''o1'' Ready (Some 6000)),
      (env0, update_at ''o1'' Collected (Some 7000)),
      (env0, update_at ''o1'' Ready (Some 8000)),
      (env0, update_at ''o2'' Collected None)]"

text \<open>The scenario's cart as the body of the create route.\<close>

definition body0 :: IncomingBody where
  "body0 =
     \<lparr>b_vendorId = ''v1'', b_paymentMethod = Some Cash, b_taxRate = Some 16,
      b_items = items cart0, b_sessionId = Some ''s1''\<rparr>"

text \<open>A cart with a line of quantity 0 and a line of quantity -3.\<close>

definition cart_nonpositive :: CreateOrderInput where
  "cart_nonpositive =
     cart0\<lparr>items := [\<lparr>menuItemId = ''a'', quantity = 0, li_notes = None\<rparr>,
                       \<lparr>menuItemId = ''b'', quantity = - 3, li_notes = None\<rparr>]\<rparr>"

text \<open>A cart with item A on two lines.\<close>

definition cart_twice :: CreateOrderInput where
  "cart_twice =
     cart0\<lparr>items := [\<lparr>menuItemId = ''a'', quantity = 1, li_notes = None\<rparr>,
                       \<lparr>menuItemId = ''a'', quantity = 1, li_notes = Some ''Option: Beef''\<rparr>]\<rparr>"

text \<open>A store in which the order code MS-1000 is taken.\<close>

definition world_taken :: world where
  "world_taken = world0\<lparr>orders := [order1\<lparr>o_order_code := ''MS-1000''\<rparr>]\<rparr>"

section \<open>Predicates of the properties\<close>

text \<open>The net amount both create paths compute from the tax rate and the total.\<close>

definition netOf :: "rat option \<Rightarrow> int \<Rightarrow> int" where
  "netOf tr total_cents =
     (let r = (case tr of None \<Rightarrow> 0 | Some r \<Rightarrow> r)
      in if r > 0 then Math_round (js_div (of_int total_cents) (js_add 1 (js_div r 100)))
         else total_cents)"



text \<open>A row after some status updates: the same order, with the \<open>ready_at\<close> and the
  \<open>collected_at\<close> it had, if it had them.\<close>

definition keeps_written :: "DbOrder \<Rightarrow> DbOrder \<Rightarrow> bool" where
  "keeps_written row row' \<longleftrightarrow>
     o_id row' = o_id row
     \<and> (o_ready_at row \<noteq> None \<longrightarrow> o_ready_at row' = o_ready_at row)
     \<and> (o_collected_at row \<noteq> None \<longrightarrow> o_collected_at row' = o_collected_at row)"

section \<open>Definitions for the properties of the aggregation engine\<close>

text \<open>The orders of the day a summary is asked for.\<close>

definition dayOrders :: "env \<Rightarrow> world \<Rightarrow> int option \<Rightarrow> DbOrder list" where
  "dayOrders e w date =
     loadOrders w (fst (getDayBounds (now e) date)) (snd (getDayBounds (now e) date))"

text \<open>The arithmetic mean, none for no values.\<close>

definition mean :: "rat list \<Rightarrow> rat option" where
  "mean ds = (if ds = [] then None else Some (sum_list ds / of_nat (length ds)))"

text \<open>The minutes from \<open>created_at\<close> to \<open>ready_at\<close>, where both are present and
  \<open>ready_at\<close> is the later one: what the loop of step 3 collects.\<close>

definition minutes_since_created :: "DbOrder \<Rightarrow> rat option" where
  "minutes_since_created row =
     (case (o_created_at row, o_ready_at row) of
        (Some created, Some ready) \<Rightarrow>
          if ready > created then Some (of_int (ready - created) / 60000) else None
      | _ \<Rightarrow> None)"

text \<open>The specification's reading of the average preparation time: the mean of
  \<open>ready_at - preparing_at\<close> in minutes over the orders where both are present and
  \<open>ready_at > preparing_at\<close>.\<close>

definition spec_prep_minutes :: "DbOrder \<Rightarrow> rat option" where
  "spec_prep_minutes row =
     (case (o_preparing_at row, o_ready_at row) of
        (Some preparing, Some ready) \<Rightarrow>
          if ready > preparing then Some (of_int (ready - preparing) / 60000) else None
      | _ \<Rightarrow> None)"

definition spec_avgPrepMinutes :: "DbOrder list \<Rightarrow> rat option" where
  "spec_avgPrepMinutes rows = mean (List.map_filter spec_prep_minutes rows)"

text \<open>A vendor's sales under the fallback name.\<close>

definition unknown_vendor :: "VendorSale \<Rightarrow> VendorSale" where
  "unknown_vendor v = v\<lparr>vs_vendorName := ''Unknown vendor''\<rparr>"

text \<open>An order's total in kwacha.\<close>

definition kwacha :: "DbOrder \<Rightarrow> rat" where
  "kwacha row = of_int (orNull (o_total_cents row)) / 100"

text \<open>The zero-valued summary.\<close>

definition zero_summary :: AdminSummary where
  "zero_summary =
     \<lparr>ordersToday = 0, revenueToday = 0, taxToday = 0, activeOrders = 0,
      avgPrepMinutesToday = None, vendorSalesToday = [], topVendor = None, topItem = None,
      latestOrders = []\<rparr>"

text \<open>Environments in which exactly one of the three loads of the summary fails.\<close>

definition env_orders_fail :: env where
  "env_orders_fail = env0\<lparr>faults := (\<lambda>c. c = LoadOrders)\<rparr>"

definition env_vendors_fail :: env where
  "env_vendors_fail = env0\<lparr>faults := (\<lambda>c. c = LoadVendorNames)\<rparr>"

definition env_items_fail :: env where
  "env_items_fail = env0\<lparr>faults := (\<lambda>c. c = LoadOrderItems)\<rparr>"

text \<open>The three orders with their items; the third belongs to a second vendor and
  started preparation half a minute after it was created.\<close>

definition world2 :: world where
  "world2 =
     world1\<lparr>vendors :=
              [\<lparr>v_id = ''v1'', v_name = ''Grill'', v_is_active = True\<rparr>,
               \<lparr>v_id = ''v2'', v_name = ''Noodles'', v_is_active = True\<rparr>],
            orders :=
              [order1, order2,
               order3\<lparr>o_vendor_id := Some ''v2'', o_preparing_at := Some 33000\<rparr>],
            order_items :=
              [\<lparr>i_order_id = ''o1'', i_name_snapshot = Some ''Item A'',
                i_unit_price_cents = 1000, i_quantity = Some 2, i_notes = None\<rparr>,
               \<lparr>i_order_id = ''o1'', i_name_snapshot = Some ''Item B'',
                i_unit_price_cents = 500, i_quantity = Some 1, i_notes = None\<rparr>,
               \<lparr>i_order_id = ''o2'', i_name_snapshot = Some ''Item A'',
                i_unit_price_cents = 1000, i_quantity = Some 1, i_notes = None\<rparr>,
               \<lparr>i_order_id = ''o3'', i_name_snapshot = Some ''Item B'',
                i_unit_price_cents = 500, i_quantity = Some 1, i_notes = None\<rparr>]\<rparr>"

text \<open>A day on which one of two orders carries no vendor id.\<close>

definition world_novendor :: world where
  "world_novendor = world2\<lparr>orders := [order1, order2\<lparr>o_vendor_id := None\<rparr>]\<rparr>"

text \<open>The same environment with every store call answering.\<close>

definition no_faults :: "env \<Rightarrow> env" where
  "no_faults e = e\<lparr>faults := (\<lambda>_. False)\<rparr>"

text \<open>The vendor names step 2 ends up with.\<close>

definition vendorNameById_of :: "env \<Rightarrow> world \<Rightarrow> DbOrder list \<Rightarrow> (string \<times> string) list" where
  "vendorNameById_of e w rows =
     (if length (vendorIds_of rows) > 0 \<and> \<not> faults e LoadVendorNames
      then vendorNames w (vendorIds_of rows) else [])"

section \<open>Further example carts and outcomes of the order engine\<close>




text \<open>The lines of a cart with other quantities, line by line.\<close>

definition with_quantities ::
  "CreateOrderItemInput list \<Rightarrow> int list \<Rightarrow> CreateOrderItemInput list" where
  "with_quantities lines qs = map2 (\<lambda>line q. line\<lparr>quantity := q\<rparr>) lines qs"

text \<open>Whether a call was accepted, or the error it was rejected with.\<close>

definition outcome :: "('e + 'a) \<times> world \<Rightarrow> 'e option" where
  "outcome r = (case fst r of Inl err \<Rightarrow> Some err | Inr _ \<Rightarrow> None)"

text \<open>An environment in which the store refuses the insert of the item rows, as a store
  with a constraint that these rows break would.\<close>

definition env_item_insert_fails :: env where
  "env_item_insert_fails = env0\<lparr>faults := (\<lambda>c. c = InsertOrderItems)\<rparr>"

section \<open>The amounts of the summary as doubles\<close>







section \<open>Evaluation on the example stores\<close>

lemma floor_numeral_div:
  "\<lfloor>(numeral a :: rat) / numeral b\<rfloor> = numeral a div numeral b"
  by (metis floor_divide_of_int_eq of_int_numeral)

lemma ceiling_numeral_div:
  "\<lceil>(numeral a :: rat) / numeral b\<rceil> = - ((- numeral a) div numeral b)"
  by (metis ceiling_divide_eq_div of_int_numeral)

lemma floor_minus_numeral_div:
  "\<lfloor>- ((numeral a :: rat) / numeral b)\<rfloor> = (- numeral a) div numeral b"
proof -
  have "- ((numeral a :: rat) / numeral b) = of_int (- numeral a) / of_int (numeral b)"
    by simp
  then show ?thesis
    by (simp only: floor_divide_of_int_eq)
qed

lemmas double_defs = js_div_def js_add_def to_double_def nearest_double_def
  round_half_even_def exponent_of_def pow2_def ilog2.simps Let_def
  floor_numeral_div floor_minus_numeral_div ceiling_numeral_div

text \<open>The net amounts of the example carts, as the doubles give them.\<close>

lemma net_2500_at_16: "Math_round (js_div 2500 (js_add 1 (js_div 16 100))) = 2155"
  by (simp add: double_defs Math_round_def)

lemma net_minus_1500_at_16: "Math_round (js_div (- 1500) (js_add 1 (js_div 16 100))) = - 1293"
  by (simp add: double_defs Math_round_def)

lemma net_1050_at_12: "Math_round (js_div 1050 (js_add 1 (js_div 12 100))) = 937"
  by (simp add: double_defs Math_round_def)

lemmas store_defs = env0_def world0_def world1_def order1_def order2_def order3_def

lemmas create_defs = createOrder_def POST_orders_create_def cart0_def body0_def
  ensureSession_def single_row_def insertOrder_def Let_def floor_numeral_div
  generateSimpleCode_def show_nat.simps digit_char_def orderItemsPayload_def
  net_2500_at_16 net_minus_1500_at_16 net_1050_at_12

section \<open>Properties of the lifecycle state machine\<close>

lemma find_map_same:
  assumes "\<And>x. P (f x) = P x"
  shows "find P (map f xs) = map_option f (find P xs)"
  using assms by (induction xs) auto

lemma loadOrder_orders: "orders w' = orders w \<Longrightarrow> loadOrder w' input = loadOrder w input"
  by (simp add: loadOrder_def split: option.split)

lemma loadOrder_after_update:
  assumes "loadOrder w input = Some current"
  shows "loadOrder (w\<lparr>orders := map (\<lambda>row. if o_id row = o_id current
                         then row\<lparr>o_status := t\<rparr> else row) (orders w)\<rparr>) input
         = Some (current\<lparr>o_status := t\<rparr>)"
proof -
  let ?f = "\<lambda>row. if o_id row = o_id current then row\<lparr>o_status := t\<rparr> else row"
  have upd: "\<And>P. find P (orders w) = Some current \<Longrightarrow> (\<And>x. P (?f x) = P x)
     \<Longrightarrow> find P (map ?f (orders w)) = Some (current\<lparr>o_status := t\<rparr>)"
    by (simp add: find_map_same)
  show ?thesis
    using assms unfolding loadOrder_def
    by (auto split: option.splits if_splits intro!: upd)
qed

lemma updateOrderStatus_found:
  assumes "\<not> faults e LoadOrder" "truthy (u_orderId input) \<or> truthy (u_orderCode input)"
    "loadOrder w input = Some current"
  shows "updateOrderStatus e w input =
    (if o_status current = toStatus input
     then (Inr \<lparr>om_id = o_id current, om_status = o_status current\<rparr>, w)
     else if \<not> canTransition (o_status current) (toStatus input)
     then (Inl (InvalidStatusTransition (o_status current) (toStatus input)), w)
     else if faults e UpdateOrder
     then (Inl FailedToUpdateOrderStatus, w)
     else (Inr \<lparr>om_id = o_id current, om_status = toStatus input\<rparr>,
       (w\<lparr>orders := map (\<lambda>row. if o_id row = o_id current
                                     then row\<lparr>o_status := toStatus input\<rparr> else row)
                             (orders w)\<rparr>)
         \<lparr>order_events := (if faults e InsertOrderEvent then order_events w
                        else order_events w @
                               [\<lparr>ev_order_id = o_id current,
                                 ev_from_status = Some (o_status current),
                                 ev_to_status = toStatus input,
                                 ev_actor = actor input\<rparr>])\<rparr>))"
  using assms by (auto simp: updateOrderStatus_def Let_def)

text \<open>
  C2. For an order that the store finds, \<open>updateOrderStatus\<close> with the order's own
  status as target is a no-op: it returns the order and leaves the store as it is. With
  the pair (preparing, ready) or (ready, collected), and the store accepting the update,
  it succeeds and the order then has the target status. With every other pair, any
  reverse transition included, it fails with the invalid-transition (Conflict) error and
  leaves the store as it is.
\<close>

theorem updateOrderStatus_transitions:
  assumes found: "\<not> faults e LoadOrder"
    "truthy (u_orderId input) \<or> truthy (u_orderCode input)"
    "loadOrder w input = Some current"
  shows "(o_status current = toStatus input \<longrightarrow>
           updateOrderStatus e w input =
             (Inr \<lparr>om_id = o_id current, om_status = o_status current\<rparr>, w))
       \<and> ((o_status current, toStatus input) \<in> {(Preparing, Ready), (Ready, Collected)}
            \<and> \<not> faults e UpdateOrder \<longrightarrow>
           fst (updateOrderStatus e w input) =
             Inr \<lparr>om_id = o_id current, om_status = toStatus input\<rparr>
           \<and> loadOrder (snd (updateOrderStatus e w input)) input =
             Some (current\<lparr>o_status := toStatus input\<rparr>))
       \<and> (o_status current \<noteq> toStatus input
            \<and> (o_status current, toStatus input) \<notin> {(Preparing, Ready), (Ready, Collected)} \<longrightarrow>
           updateOrderStatus e w input =
             (Inl (InvalidStatusTransition (o_status current) (toStatus input)), w))"
proof (intro conjI impI)
  assume "o_status current = toStatus input"
  then show "updateOrderStatus e w input =
             (Inr \<lparr>om_id = o_id current, om_status = o_status current\<rparr>, w)"
    by (simp add: updateOrderStatus_found [OF found])
next
  assume a: "(o_status current, toStatus input) \<in> {(Preparing, Ready), (Ready, Collected)}
            \<and> \<not> faults e UpdateOrder"
  then have ct: "canTransition (o_status current) (toStatus input)"
    and ne: "o_status current \<noteq> toStatus input" by auto
  from a ct ne show "fst (updateOrderStatus e w input) =
             Inr \<lparr>om_id = o_id current, om_status = toStatus input\<rparr>"
    by (simp add: updateOrderStatus_found [OF found])
  have "orders (snd (updateOrderStatus e w input))
      = orders (w\<lparr>orders := map (\<lambda>row. if o_id row = o_id current
                         then row\<lparr>o_status := toStatus input\<rparr> else row) (orders w)\<rparr>)"
    using a ct ne by (simp add: updateOrderStatus_found [OF found])
  then have "loadOrder (snd (updateOrderStatus e w input)) input
      = loadOrder (w\<lparr>orders := map (\<lambda>row. if o_id row = o_id current
                         then row\<lparr>o_status := toStatus input\<rparr> else row) (orders w)\<rparr>) input"
    by (rule loadOrder_orders)
  then show "loadOrder (snd (updateOrderStatus e w input)) input =
             Some (current\<lparr>o_status := toStatus input\<rparr>)"
    by (simp add: loadOrder_after_update [OF found(3)])
next
  assume a: "o_status current \<noteq> toStatus input
            \<and> (o_status current, toStatus input) \<notin> {(Preparing, Ready), (Ready, Collected)}"
  then have "\<not> canTransition (o_status current) (toStatus input)"
    by (cases "o_status current"; cases "toStatus input") auto
  with a show "updateOrderStatus e w input =
             (Inl (InvalidStatusTransition (o_status current) (toStatus input)), w)"
    by (simp add: updateOrderStatus_found [OF found])
qed

lemma loadOrder_world1:
  "loadOrder world1 (update_by_id ''o1'' t) = Some order1"
  "loadOrder world1 (update_by_id ''o2'' t) = Some order2"
  "loadOrder world1 (update_by_id ''o3'' t) = Some order3"
  by (simp_all add: loadOrder_def world1_def update_by_id_def order1_def order2_def order3_def)

theorem updateOrderStatus_transitions_witness:
  "updateOrderStatus env0 world1 (update_by_id ''o3'' Preparing) =
     (Inl (InvalidStatusTransition Collected Preparing), world1)
   \<and> updateOrderStatus env0 world1 (update_by_id ''o2'' Ready) =
     (Inr \<lparr>om_id = ''o2'', om_status = Ready\<rparr>, world1)
   \<and> fst (updateOrderStatus env0 world1 (update_by_id ''o1'' Ready)) =
     Inr \<lparr>om_id = ''o1'', om_status = Ready\<rparr>
   \<and> loadOrder (snd (updateOrderStatus env0 world1 (update_by_id ''o1'' Ready)))
        (update_by_id ''o1'' Ready) = Some (order1\<lparr>o_status := Ready\<rparr>)"
proof -
  have nf: "\<not> faults env0 LoadOrder" "\<not> faults env0 UpdateOrder"
    by (simp_all add: env0_def)
  have tr: "truthy (u_orderId (update_by_id i t)) \<or> truthy (u_orderCode (update_by_id i t))"
    if "i \<noteq> []" for i t
    using that by (simp add: update_by_id_def)
  have st: "o_status order1 = Preparing" "o_status order2 = Ready" "o_status order3 = Collected"
    "o_id order1 = ''o1''" "o_id order2 = ''o2''" "toStatus (update_by_id i t) = t" for i t
    by (simp_all add: order1_def order2_def order3_def update_by_id_def)
  show ?thesis
    using updateOrderStatus_transitions [OF nf(1) tr loadOrder_world1(3), of Preparing]
      updateOrderStatus_transitions [OF nf(1) tr loadOrder_world1(2), of Ready]
      updateOrderStatus_transitions [OF nf(1) tr loadOrder_world1(1), of Ready]
    by (simp add: st nf)
qed

lemma keeps_written_refl: "list_all2 keeps_written xs xs"
  by (simp add: list_all2_same keeps_written_def)

lemma keeps_written_trans:
  assumes "list_all2 keeps_written xs ys" and "list_all2 keeps_written ys zs"
  shows "list_all2 keeps_written xs zs"
  using _ assms by (rule list_all2_trans) (auto simp: keeps_written_def)

lemma keeps_written_ids:
  "list_all2 keeps_written xs ys \<Longrightarrow> map o_id ys = map o_id xs"
  by (induction rule: list_all2_induct) (auto simp: keeps_written_def)

lemma loadOrder_in_orders: "loadOrder w input = Some current \<Longrightarrow> current \<in> set (orders w)"
  by (auto simp: loadOrder_def find_Some_iff split: option.splits if_splits)

lemma same_id_same_row:
  "distinct (map o_id xs) \<Longrightarrow> x \<in> set xs \<Longrightarrow> y \<in> set xs \<Longrightarrow> o_id x = o_id y \<Longrightarrow> x = y"
  by (meson distinct_map inj_onD)

lemma applyUpdates_keeps:
  assumes "up_ready_at updates \<noteq> None \<longrightarrow> o_ready_at row = None"
    and "up_collected_at updates \<noteq> None \<longrightarrow> o_collected_at row = None"
  shows "keeps_written row (applyUpdates updates row)"
  using assms by (auto simp: keeps_written_def applyUpdates_def split: option.splits)

lemma updateOrderStatus_at_keeps:
  assumes pk: "distinct (map o_id (orders w))"
  shows "list_all2 keeps_written (orders w) (orders (snd (updateOrderStatus_at e w input)))"
proof (cases "\<exists>current. loadOrder w input = Some current")
  case False
  then show ?thesis
    by (auto simp: updateOrderStatus_at_def Let_def keeps_written_refl)
next
  case True
  then obtain current where cur: "loadOrder w input = Some current" by blast
  have mem: "current \<in> set (orders w)" by (rule loadOrder_in_orders [OF cur])
  have upd: "list_all2 keeps_written (orders w)
        (map (\<lambda>row. if o_id row = o_id current then applyUpdates updates row else row) (orders w))"
    if "up_ready_at updates \<noteq> None \<longrightarrow> o_ready_at current = None"
      and "up_collected_at updates \<noteq> None \<longrightarrow> o_collected_at current = None" for updates
  proof -
    have "keeps_written row (if o_id row = o_id current then applyUpdates updates row else row)"
      if "row \<in> set (orders w)" for row
    proof (cases "o_id row = o_id current")
      case True
      then have "row = current" using same_id_same_row [OF pk that mem] by simp
      then show ?thesis using \<open>up_ready_at updates \<noteq> None \<longrightarrow> o_ready_at current = None\<close>
          \<open>up_collected_at updates \<noteq> None \<longrightarrow> o_collected_at current = None\<close>
        by (simp add: applyUpdates_keeps)
    next
      case False
      then show ?thesis by (simp add: keeps_written_def)
    qed
    then show ?thesis by (simp add: list_all2_conv_all_nth)
  qed
  show ?thesis
    using cur by (auto simp: updateOrderStatus_at_def Let_def keeps_written_refl intro!: upd)
qed

text \<open>
  C3. Whatever status-update calls follow, in any number and with any inputs, every order
  keeps the \<open>ready_at\<close> and the \<open>collected_at\<close> it already has: a timestamp is written
  only while the column is still empty, so the first write stays. (Order ids are the
  primary key of the table.)
\<close>

theorem timestamps_first_write_wins:
  assumes "distinct (map o_id (orders w))"
  shows "list_all2 keeps_written (orders w) (orders (updateOrderStatus_calls cs w))"
  using assms
proof (induction cs arbitrary: w)
  case Nil
  show ?case by (simp add: keeps_written_refl)
next
  case (Cons c cs)
  obtain e input where c: "c = (e, input)" by (cases c)
  let ?w1 = "snd (updateOrderStatus_at e w input)"
  have step: "list_all2 keeps_written (orders w) (orders ?w1)"
    by (rule updateOrderStatus_at_keeps [OF Cons.prems])
  then have "distinct (map o_id (orders ?w1))"
    using Cons.prems by (simp add: keeps_written_ids)
  then have "list_all2 keeps_written (orders ?w1) (orders (updateOrderStatus_calls cs ?w1))"
    by (rule Cons.IH)
  with step show ?case
    unfolding c by (simp add: keeps_written_trans)
qed

lemma first_call_world:
  "updateOrderStatus_calls [first_call] world1 =
     world1\<lparr>orders := [order1\<lparr>o_status := Ready, o_ready_at := Some 5000\<rparr>, order2, order3],
            order_events := [\<lparr>ev_order_id = ''o1'', ev_from_status = Some Preparing,
                               ev_to_status = Ready, ev_actor = Vendor\<rparr>]\<rparr>"
  by (simp add: first_call_def update_at_def updateOrderStatus_at_def loadOrder_def
        applyUpdates_def Let_def store_defs)

text \<open>
  Witness for C3: after the first order is marked ready at 5000, four more calls (the same
  request again, collecting it, asking for ready again, collecting the second order) leave
  every \<open>ready_at\<close> as it was.
\<close>

theorem timestamps_first_write_wins_witness:
  "distinct (map o_id (orders (updateOrderStatus_calls [first_call] world1)))
   \<and> map o_ready_at (orders (updateOrderStatus_calls [first_call] world1))
       = [Some 5000, Some 182000, Some 63000]
   \<and> map o_ready_at
        (orders (updateOrderStatus_calls later_calls
                   (updateOrderStatus_calls [first_call] world1)))
       = [Some 5000, Some 182000, Some 63000]
   \<and> map o_collected_at
        (orders (updateOrderStatus_calls later_calls
                   (updateOrderStatus_calls [first_call] world1)))
       = [Some 7000, Some 1000, Some 123000]"
proof -
  have d: "distinct (map o_id (orders (updateOrderStatus_calls [first_call] world1)))"
    unfolding first_call_world by (simp add: store_defs)
  show ?thesis
    using d timestamps_first_write_wins [OF d, of later_calls]
    unfolding first_call_world
    by (simp add: later_calls_def update_at_def updateOrderStatus_at_def loadOrder_def
          applyUpdates_def Let_def store_defs)
qed

section \<open>Properties of the order engine\<close>

lemma ensureSession_tables:
  "ensureSession e w sid = (r, w1) \<Longrightarrow>
     vendors w1 = vendors w \<and> menu_items w1 = menu_items w \<and> orders w1 = orders w
     \<and> order_items w1 = order_items w \<and> order_events w1 = order_events w"
  by (auto simp: ensureSession_def insertSession_def Let_def split: if_splits option.splits)


lemma orderItemsToInsert_lines:
  "orderItemsToInsert ms ls t = Some (ds, t') \<Longrightarrow>
     list_all2 (\<lambda>l d. d_quantity d = quantity l \<and> d_notes d = li_notes l
        \<and> (\<exists>m \<in> set ms. m_id m = menuItemId l \<and> unit_price_cents d = m_price_cents m
              \<and> name_snapshot d = m_name m)) ls ds"
proof (induction ls arbitrary: t ds)
  case Nil
  then show ?case by simp
next
  case (Cons l ls)
  then show ?case
    by (fastforce simp: Let_def find_Some_iff split: option.splits)
qed



lemma createOrder_accepted:
  assumes "createOrder e w input = (Inr res, w')"
  shows "\<exists>session w1 drafts total_cents order.
     ensureSession e w (sessionId input) = (Inr session, w1)
   \<and> length (filter (\<lambda>m. m_id m \<in> set (map menuItemId (items input))) (menu_items w))
       = length (items input)
   \<and> orderItemsToInsert
        (filter (\<lambda>m. m_id m \<in> set (map menuItemId (items input))) (menu_items w))
        (items input) 0 = Some (drafts, total_cents)
   \<and> orders w' = orders w @ [order]
   \<and> order_items w' = order_items w @ orderItemsPayload order drafts
   \<and> o_id order = r_orderId res
   \<and> o_total_cents order = Some total_cents
   \<and> o_net_cents order = Some (netOf (taxRate input) total_cents)
   \<and> o_tax_cents order = Some (total_cents - netOf (taxRate input) total_cents)"
proof -
  obtain r w1 where es: "ensureSession e w (sessionId input) = (r, w1)"
    by (cases "ensureSession e w (sessionId input)")
  note tb = ensureSession_tables [OF es]
  show ?thesis
    using assms tb unfolding createOrder_def es
    by (auto simp: Let_def insertOrder_def netOf_def
             split: if_splits option.splits sum.splits prod.splits)
qed

lemma POST_orders_create_accepted:
  assumes "POST_orders_create e w body = (Inr res, w')"
  shows "\<exists>session w1 drafts total_cents order.
     ensureSession e w (b_sessionId body) = (Inr session, w1)
   \<and> length (filter (\<lambda>m. m_id m \<in> set (map menuItemId (b_items body))) (menu_items w))
       = length (b_items body)
   \<and> orderItemsToInsert
        (filter (\<lambda>m. m_id m \<in> set (map menuItemId (b_items body))) (menu_items w))
        (b_items body) 0 = Some (drafts, total_cents)
   \<and> orders w' = orders w @ [order]
   \<and> order_items w' = order_items w @ orderItemsPayload order drafts
   \<and> o_id order = r_orderId res
   \<and> o_total_cents order = Some total_cents
   \<and> o_net_cents order = Some (netOf (b_taxRate body) total_cents)
   \<and> o_tax_cents order = Some (total_cents - netOf (b_taxRate body) total_cents)"
proof -
  obtain r w1 where es: "ensureSession e w (b_sessionId body) = (r, w1)"
    by (cases "ensureSession e w (b_sessionId body)")
  note tb = ensureSession_tables [OF es]
  show ?thesis
    using assms tb unfolding POST_orders_create_def es
    by (auto simp: Let_def insertOrder_def netOf_def
             split: if_splits option.splits sum.splits prod.splits)
qed


text \<open>The two create paths, run on the scenario.\<close>

lemma createOrder_cart0:
  "createOrder env0 world0 cart0 =
    (Inr \<lparr>r_orderId = ''id-0'', r_orderCode = ''MS-1000'', r_vendorId = Some ''v1'',
          r_totalCents = Some 2500, r_sessionId = Some ''s1'', r_ticketCode = ''WL-1000''\<rparr>,
     world0\<lparr>orders :=
         [\<lparr>o_id = ''id-0'', o_order_code = ''MS-1000'', o_vendor_id = Some ''v1'',
           o_session_id = Some ''s1'', o_total_cents = Some 2500, o_net_cents = Some 2155,
           o_tax_cents = Some 345, o_tax_rate = Some 16, o_payment_method = Some Cash,
           o_status = Preparing, o_created_at = Some 1000, o_preparing_at = None,
           o_ready_at = None, o_collected_at = None\<rparr>],
       order_items :=
         [\<lparr>i_order_id = ''id-0'', i_name_snapshot = Some ''Item A'',
           i_unit_price_cents = 1000, i_quantity = Some 2, i_notes = None\<rparr>,
          \<lparr>i_order_id = ''id-0'', i_name_snapshot = Some ''Item B'',
           i_unit_price_cents = 500, i_quantity = Some 1, i_notes = None\<rparr>],
       order_events :=
         [\<lparr>ev_order_id = ''id-0'', ev_from_status = None, ev_to_status = Preparing,
           ev_actor = Cashier\<rparr>],
       ids := 1, draws := 1\<rparr>)"
  by (simp add: create_defs store_defs)

lemma POST_body0:
  "POST_orders_create env0 world0 body0 =
    (Inr \<lparr>r_orderId = ''id-0'', r_orderCode = ''WL-1000'', r_vendorId = Some ''v1'',
          r_totalCents = Some 2500, r_sessionId = Some ''s1'', r_ticketCode = ''WL-1000''\<rparr>,
     world0\<lparr>orders :=
         [\<lparr>o_id = ''id-0'', o_order_code = ''WL-1000'', o_vendor_id = Some ''v1'',
           o_session_id = Some ''s1'', o_total_cents = Some 2500, o_net_cents = Some 2155,
           o_tax_cents = Some 345, o_tax_rate = Some 16, o_payment_method = Some Cash,
           o_status = Preparing, o_created_at = Some 1000, o_preparing_at = None,
           o_ready_at = None, o_collected_at = None\<rparr>],
       order_items :=
         [\<lparr>i_order_id = ''id-0'', i_name_snapshot = Some ''Item A'',
           i_unit_price_cents = 1000, i_quantity = Some 2, i_notes = None\<rparr>,
          \<lparr>i_order_id = ''id-0'', i_name_snapshot = Some ''Item B'',
           i_unit_price_cents = 500, i_quantity = Some 1, i_notes = None\<rparr>],
       order_events :=
         [\<lparr>ev_order_id = ''id-0'', ev_from_status = None, ev_to_status = Preparing,
           ev_actor = Cashier\<rparr>],
       ids := 1, draws := 1\<rparr>)"
  by (simp add: create_defs store_defs)



lemma payload_quantities:
  assumes "orderItemsToInsert ms ls t = Some (ds, t')"
  shows "map i_quantity (orderItemsPayload order ds) = map (\<lambda>l. Some (quantity l)) ls"
  using orderItemsToInsert_lines [OF assms]
  by (induction rule: list_all2_induct) (simp_all add: orderItemsPayload_def)

lemma quantities_positive_iff:
  assumes "map i_quantity its = map (\<lambda>l. Some (quantity l)) ls"
  shows "(\<forall>it \<in> set its. \<exists>q. i_quantity it = Some q \<and> q > 0)
     \<longleftrightarrow> (\<forall>l \<in> set ls. quantity l > 0)"
proof -
  have "(\<forall>it \<in> set its. \<exists>q. i_quantity it = Some q \<and> q > 0)
      \<longleftrightarrow> (\<forall>x \<in> set (map i_quantity its). \<exists>q. x = Some q \<and> q > 0)"
    by simp
  also have "\<dots> \<longleftrightarrow> (\<forall>l \<in> set ls. quantity l > 0)"
    unfolding assms by simp
  finally show ?thesis .
qed

text \<open>The lines of a cart with other quantities: the same menu items, as many lines.\<close>

lemma with_quantities_facts:
  assumes "length qs = length ls"
  shows "length (with_quantities ls qs) = length ls"
    and "map menuItemId (with_quantities ls qs) = map menuItemId ls"
    and "(with_quantities ls qs = []) = (ls = [])"
    and "map quantity (with_quantities ls qs) = qs"
  using assms
  by (induction ls qs rule: list_induct2'; simp add: with_quantities_def)+

lemma orderItemsToInsert_Cons_None:
  "(orderItemsToInsert ms (l # ls) t = None) =
     (case find (\<lambda>m. m_id m = menuItemId l) ms of
        None \<Rightarrow> True
      | Some m \<Rightarrow> orderItemsToInsert ms ls (t + m_price_cents m * quantity l) = None)"
  by (simp add: Let_def split: option.split)

lemma orderItemsToInsert_None_iff:
  "map menuItemId ls' = map menuItemId ls \<Longrightarrow>
     (orderItemsToInsert ms ls' t' = None) = (orderItemsToInsert ms ls t = None)"
proof (induction ls arbitrary: ls' t t')
  case Nil
  then show ?case by simp
next
  case (Cons l ls)
  then obtain l' rest' where ls': "ls' = l' # rest'" "menuItemId l' = menuItemId l"
    "map menuItemId rest' = map menuItemId ls"
    by (cases ls') auto
  show ?case
  proof (cases "find (\<lambda>m. m_id m = menuItemId l) ms")
    case None
    then show ?thesis
      unfolding ls'(1) orderItemsToInsert_Cons_None ls'(2) by simp
  next
    case (Some m)
    have "(orderItemsToInsert ms rest' (t' + m_price_cents m * quantity l') = None)
        = (orderItemsToInsert ms ls (t + m_price_cents m * quantity l) = None)"
      by (rule Cons.IH [OF ls'(3)])
    with Some show ?thesis
      unfolding ls'(1) orderItemsToInsert_Cons_None ls'(2) by simp
  qed
qed

lemma createOrder_outcome_quantities:
  assumes len: "length qs = length (items input)"
  shows "outcome (createOrder e w (input\<lparr>items := with_quantities (items input) qs\<rparr>))
       = outcome (createOrder e w input)"
proof -
  note wq = with_quantities_facts [OF len]
  obtain r w1 where es: "ensureSession e w (sessionId input) = (r, w1)"
    by (cases "ensureSession e w (sessionId input)")
  let ?ms = "filter (\<lambda>m. m_id m \<in> set (map menuItemId (items input))) (menu_items w1)"
  have none: "(orderItemsToInsert ?ms (with_quantities (items input) qs) 0 = None)
      = (orderItemsToInsert ?ms (items input) 0 = None)"
    by (rule orderItemsToInsert_None_iff [OF wq(2)])
  show ?thesis
  proof (cases "orderItemsToInsert ?ms (items input) 0")
    case None
    with none have "orderItemsToInsert ?ms (with_quantities (items input) qs) 0 = None"
      by simp
    with None show ?thesis
      by (simp add: createOrder_def outcome_def Let_def es wq
            split: sum.split option.split)
  next
    case (Some dt)
    with none obtain dt' where
      "orderItemsToInsert ?ms (with_quantities (items input) qs) 0 = Some dt'"
      by auto
    with Some show ?thesis
      by (cases dt; cases dt')
         (simp add: createOrder_def outcome_def Let_def es wq insertOrder_def
            split: sum.split option.split)
  qed
qed

lemma POST_outcome_quantities:
  assumes len: "length qs = length (b_items body)"
  shows "outcome (POST_orders_create e w (body\<lparr>b_items := with_quantities (b_items body) qs\<rparr>))
       = outcome (POST_orders_create e w body)"
proof -
  note wq = with_quantities_facts [OF len]
  obtain r w1 where es: "ensureSession e w (b_sessionId body) = (r, w1)"
    by (cases "ensureSession e w (b_sessionId body)")
  let ?ms = "filter (\<lambda>m. m_id m \<in> set (map menuItemId (b_items body))) (menu_items w1)"
  have none: "(orderItemsToInsert ?ms (with_quantities (b_items body) qs) 0 = None)
      = (orderItemsToInsert ?ms (b_items body) 0 = None)"
    by (rule orderItemsToInsert_None_iff [OF wq(2)])
  show ?thesis
  proof (cases "orderItemsToInsert ?ms (b_items body) 0")
    case None
    with none have "orderItemsToInsert ?ms (with_quantities (b_items body) qs) 0 = None"
      by simp
    with None show ?thesis
      by (simp add: POST_orders_create_def outcome_def Let_def es wq
            split: sum.split option.split)
  next
    case (Some dt)
    with none obtain dt' where
      "orderItemsToInsert ?ms (with_quantities (b_items body) qs) 0 = Some dt'"
      by auto
    with Some show ?thesis
      by (cases dt; cases dt')
         (simp add: POST_orders_create_def outcome_def Let_def es wq insertOrder_def
            split: sum.split option.split)
  qed
qed

lemma createOrder_items_refused:
  assumes "createOrder e w input = (Inl FailedToCreateOrderItems, w')"
  shows "faults e InsertOrderItems
     \<and> (\<exists>order. orders w' = orders w @ [order] \<and> order_items w' = order_items w)"
proof -
  obtain r w1 where es: "ensureSession e w (sessionId input) = (r, w1)"
    by (cases "ensureSession e w (sessionId input)")
  have err: "r \<noteq> Inl FailedToCreateOrderItems"
    using es by (auto simp: ensureSession_def Let_def split: if_splits option.splits)
  note tb = ensureSession_tables [OF es]
  show ?thesis
    using assms tb err unfolding createOrder_def es
    by (auto simp: Let_def insertOrder_def
             split: if_splits option.splits sum.splits prod.splits)
qed

lemma POST_items_refused:
  assumes "POST_orders_create e w body = (Inl (500, FailedToCreateOrderItems), w')"
  shows "faults e InsertOrderItems
     \<and> (\<exists>order. orders w' = orders w @ [order] \<and> order_items w' = order_items w)"
proof -
  obtain r w1 where es: "ensureSession e w (b_sessionId body) = (r, w1)"
    by (cases "ensureSession e w (b_sessionId body)")
  note tb = ensureSession_tables [OF es]
  show ?thesis
    using assms tb unfolding POST_orders_create_def es
    by (auto simp: Let_def insertOrder_def
             split: if_splits option.splits sum.splits prod.splits)
qed

text \<open>
  C9, amended. The order engine makes no check of the quantity of a cart line. With the
  store and its answers fixed, \<open>createOrder\<close> (and the create route) ends the same way,
  accepted or rejected with the same error, whatever quantities the lines of the cart
  carry, zero and negative ones included. Every item row persisted for an accepted cart
  carries the quantity of its cart line as supplied, so the persisted quantities are all
  positive exactly when the supplied ones are. The item rows are written after the order
  row, and the only refusal of item rows is the store's: a call that fails with "Failed to
  create order items." (status 500 in the route) was refused by the store at the insert of
  the item rows, and has written its order row and no item row.
\<close>

theorem createOrder_quantities_unchecked:
  "(length qs = length (items input) \<longrightarrow>
      outcome (createOrder e w (input\<lparr>items := with_quantities (items input) qs\<rparr>))
        = outcome (createOrder e w input))
   \<and> (length qs2 = length (b_items body) \<longrightarrow>
      outcome (POST_orders_create e w
                 (body\<lparr>b_items := with_quantities (b_items body) qs2\<rparr>))
        = outcome (POST_orders_create e w body))
   \<and> (createOrder e w input = (Inr res, w') \<longrightarrow>
      (\<exists>its. order_items w' = order_items w @ its
         \<and> map i_quantity its = map (\<lambda>l. Some (quantity l)) (items input)
         \<and> ((\<forall>it \<in> set its. \<exists>q. i_quantity it = Some q \<and> q > 0)
              \<longleftrightarrow> (\<forall>l \<in> set (items input). quantity l > 0))))
   \<and> (POST_orders_create e w body = (Inr res2, w2) \<longrightarrow>
      (\<exists>its. order_items w2 = order_items w @ its
         \<and> map i_quantity its = map (\<lambda>l. Some (quantity l)) (b_items body)
         \<and> ((\<forall>it \<in> set its. \<exists>q. i_quantity it = Some q \<and> q > 0)
              \<longleftrightarrow> (\<forall>l \<in> set (b_items body). quantity l > 0))))
   \<and> (createOrder e w input = (Inl FailedToCreateOrderItems, w3) \<longrightarrow>
      faults e InsertOrderItems
      \<and> (\<exists>order. orders w3 = orders w @ [order] \<and> order_items w3 = order_items w))
   \<and> (POST_orders_create e w body = (Inl (500, FailedToCreateOrderItems), w4) \<longrightarrow>
      faults e InsertOrderItems
      \<and> (\<exists>order. orders w4 = orders w @ [order] \<and> order_items w4 = order_items w))"
proof (intro conjI impI)
  assume "length qs = length (items input)"
  then show "outcome (createOrder e w (input\<lparr>items := with_quantities (items input) qs\<rparr>))
        = outcome (createOrder e w input)"
    by (rule createOrder_outcome_quantities)
next
  assume "length qs2 = length (b_items body)"
  then show "outcome (POST_orders_create e w
                 (body\<lparr>b_items := with_quantities (b_items body) qs2\<rparr>))
        = outcome (POST_orders_create e w body)"
    by (rule POST_outcome_quantities)
next
  assume "createOrder e w input = (Inr res, w')"
  from createOrder_accepted [OF this] obtain drafts total_cents order where
    ins: "orderItemsToInsert
        (filter (\<lambda>m. m_id m \<in> set (map menuItemId (items input))) (menu_items w))
        (items input) 0 = Some (drafts, total_cents)"
    and its: "order_items w' = order_items w @ orderItemsPayload order drafts"
    by blast
  note q = payload_quantities [OF ins, of order]
  show "\<exists>its. order_items w' = order_items w @ its
         \<and> map i_quantity its = map (\<lambda>l. Some (quantity l)) (items input)
         \<and> ((\<forall>it \<in> set its. \<exists>q. i_quantity it = Some q \<and> q > 0)
              \<longleftrightarrow> (\<forall>l \<in> set (items input). quantity l > 0))"
    using its q quantities_positive_iff [OF q] by blast
next
  assume "POST_orders_create e w body = (Inr res2, w2)"
  from POST_orders_create_accepted [OF this] obtain drafts total_cents order where
    ins: "orderItemsToInsert
        (filter (\<lambda>m. m_id m \<in> set (map menuItemId (b_items body))) (menu_items w))
        (b_items body) 0 = Some (drafts, total_cents)"
    and its: "order_items w2 = order_items w @ orderItemsPayload order drafts"
    by blast
  note q = payload_quantities [OF ins, of order]
  show "\<exists>its. order_items w2 = order_items w @ its
         \<and> map i_quantity its = map (\<lambda>l. Some (quantity l)) (b_items body)
         \<and> ((\<forall>it \<in> set its. \<exists>q. i_quantity it = Some q \<and> q > 0)
              \<longleftrightarrow> (\<forall>l \<in> set (b_items body). quantity l > 0))"
    using its q quantities_positive_iff [OF q] by blast
next
  assume "createOrder e w input = (Inl FailedToCreateOrderItems, w3)"
  from createOrder_items_refused [OF this]
  show "faults e InsertOrderItems" ..
next
  assume "createOrder e w input = (Inl FailedToCreateOrderItems, w3)"
  from createOrder_items_refused [OF this]
  show "\<exists>order. orders w3 = orders w @ [order] \<and> order_items w3 = order_items w" ..
next
  assume "POST_orders_create e w body = (Inl (500, FailedToCreateOrderItems), w4)"
  from POST_items_refused [OF this]
  show "faults e InsertOrderItems" ..
next
  assume "POST_orders_create e w body = (Inl (500, FailedToCreateOrderItems), w4)"
  from POST_items_refused [OF this]
  show "\<exists>order. orders w4 = orders w @ [order] \<and> order_items w4 = order_items w" ..
qed

lemma cart_nonpositive_quantities:
  "cart0\<lparr>items := with_quantities (items cart0) [0, - 3]\<rparr> = cart_nonpositive"
  "body0\<lparr>b_items := with_quantities (b_items body0) [0, - 3]\<rparr>
     = body0\<lparr>b_items := items cart_nonpositive\<rparr>"
  by (simp_all add: cart0_def body0_def cart_nonpositive_def with_quantities_def)

text \<open>
  Counterexample to C9: the scenario's cart with quantity 0 on the first line and -3 on the
  second. Where the store takes the item rows, the cart is accepted by both create paths
  and both lines are persisted with these quantities. Where the store refuses the item
  rows, the call fails, and the order row of the cart, total -1500, is persisted without
  item rows.
\<close>

theorem createOrder_nonpositive_quantity_counterexample:
  "map quantity (items cart_nonpositive) = [0, - 3]
   \<and> fst (createOrder env0 world0 cart_nonpositive) =
       Inr \<lparr>r_orderId = ''id-0'', r_orderCode = ''MS-1000'', r_vendorId = Some ''v1'',
            r_totalCents = Some (- 1500), r_sessionId = Some ''s1'',
            r_ticketCode = ''WL-1000''\<rparr>
   \<and> map i_quantity (order_items (snd (createOrder env0 world0 cart_nonpositive)))
       = [Some 0, Some (- 3)]
   \<and> outcome (POST_orders_create env0 world0 (body0\<lparr>b_items := items cart_nonpositive\<rparr>))
       = None
   \<and> map i_quantity (order_items (snd (POST_orders_create env0 world0
         (body0\<lparr>b_items := items cart_nonpositive\<rparr>)))) = [Some 0, Some (- 3)]
   \<and> outcome (createOrder env_item_insert_fails world0 cart_nonpositive)
       = Some FailedToCreateOrderItems
   \<and> map o_total_cents (orders (snd (createOrder env_item_insert_fails world0
         cart_nonpositive))) = [Some (- 1500)]
   \<and> order_items (snd (createOrder env_item_insert_fails world0 cart_nonpositive)) = []"
  by (simp add: create_defs store_defs cart_nonpositive_def outcome_def
        env_item_insert_fails_def)

text \<open>
  Witness for the amended C9: the quantities of the scenario's cart replaced by 0 and -3.
  The cart is accepted as the scenario's cart is, and persisted with these quantities;
  with the store refusing the item rows, one order row and no item row is written.
\<close>

theorem createOrder_quantities_unchecked_witness:
  "cart0\<lparr>items := with_quantities (items cart0) [0, - 3]\<rparr> = cart_nonpositive
   \<and> outcome (createOrder env0 world0 cart0) = None
   \<and> outcome (createOrder env0 world0 cart_nonpositive) = None
   \<and> map i_quantity (order_items (snd (createOrder env0 world0 cart_nonpositive)))
       = [Some 0, Some (- 3)]
   \<and> outcome (POST_orders_create env0 world0 body0) = None
   \<and> outcome (POST_orders_create env0 world0 (body0\<lparr>b_items := items cart_nonpositive\<rparr>))
       = None
   \<and> map i_quantity (order_items (snd (POST_orders_create env0 world0
         (body0\<lparr>b_items := items cart_nonpositive\<rparr>)))) = [Some 0, Some (- 3)]
   \<and> outcome (createOrder env_item_insert_fails world0 cart_nonpositive)
       = Some FailedToCreateOrderItems
   \<and> length (orders (snd (createOrder env_item_insert_fails world0 cart_nonpositive))) = 1
   \<and> order_items (snd (createOrder env_item_insert_fails world0 cart_nonpositive)) = []"
proof -
  let ?np = "createOrder env0 world0 cart_nonpositive"
  let ?npP = "POST_orders_create env0 world0 (body0\<lparr>b_items := items cart_nonpositive\<rparr>)"
  let ?rf = "createOrder env_item_insert_fails world0 cart_nonpositive"
  have len: "length [0, - 3 :: int] = length (items cart0)"
    "length [0, - 3 :: int] = length (b_items body0)"
    by (simp_all add: cart0_def body0_def)
  have o0: "outcome (createOrder env0 world0 cart0) = None"
    "outcome (POST_orders_create env0 world0 body0) = None"
    by (simp_all add: createOrder_cart0 POST_body0 outcome_def)
  have o1: "outcome ?np = None"
    using createOrder_quantities_unchecked
            [of "[0, - 3]" cart0 env0 world0, THEN conjunct1, rule_format, OF len(1)]
    by (simp add: cart_nonpositive_quantities o0)
  have o2: "outcome ?npP = None"
    using createOrder_quantities_unchecked
            [where ?qs2.0 = "[0, - 3]" and body = body0 and e = env0 and w = world0,
             THEN conjunct2, THEN conjunct1, rule_format, OF len(2)]
    by (simp add: cart_nonpositive_quantities o0)
  from o1 have a1: "?np = (Inr (projr (fst ?np)), snd ?np)"
    by (cases ?np; cases "fst ?np") (simp_all add: outcome_def)
  from o2 have a2: "?npP = (Inr (projr (fst ?npP)), snd ?npP)"
    by (cases ?npP; cases "fst ?npP") (simp_all add: outcome_def)
  have w0: "order_items world0 = []" "orders world0 = []"
    by (simp_all add: world0_def)
  have q1: "map i_quantity (order_items (snd ?np)) = [Some 0, Some (- 3)]"
    using createOrder_quantities_unchecked
            [THEN conjunct2, THEN conjunct2, THEN conjunct1, rule_format, OF a1]
    by (auto simp: w0 cart_nonpositive_def)
  have q2: "map i_quantity (order_items (snd ?npP)) = [Some 0, Some (- 3)]"
    using createOrder_quantities_unchecked
            [THEN conjunct2, THEN conjunct2, THEN conjunct2, THEN conjunct1, rule_format,
             OF a2]
    by (auto simp: w0 cart_nonpositive_def)
  have o3: "outcome ?rf = Some FailedToCreateOrderItems"
    by (simp add: create_defs store_defs cart_nonpositive_def outcome_def
          env_item_insert_fails_def)
  then have a3: "?rf = (Inl FailedToCreateOrderItems, snd ?rf)"
    by (cases ?rf; cases "fst ?rf") (simp_all add: outcome_def)
  have r: "length (orders (snd ?rf)) = 1 \<and> order_items (snd ?rf) = []"
    using createOrder_quantities_unchecked
            [THEN conjunct2, THEN conjunct2, THEN conjunct2, THEN conjunct2, THEN conjunct1,
             rule_format, OF a3]
    by (auto simp: w0)
  show ?thesis
    using o0 o1 o2 q1 q2 o3 r by (simp add: cart_nonpositive_quantities)
qed

lemma duplicate_ids_fetch_fewer:
  assumes pk: "distinct (map m_id ms)" and dup: "\<not> distinct wanted"
  shows "length (filter (\<lambda>m. m_id m \<in> set wanted) ms) < length wanted"
proof -
  let ?rows = "filter (\<lambda>m. m_id m \<in> set wanted) ms"
  have "distinct (map m_id ?rows)"
    using pk by (rule distinct_map_filter)
  then have "length ?rows = card (set (map m_id ?rows))"
    by (metis distinct_card length_map)
  also have "\<dots> \<le> card (set wanted)"
    by (rule card_mono) auto
  also have "\<dots> < length wanted"
    using dup card_length [of wanted] card_distinct [of wanted] by linarith
  finally show ?thesis .
qed


text \<open>
  C10. A cart that names the same menu item on two or more lines is never accepted, by
  \<open>createOrder\<close> or by the create route; once the ticket is resolved, the vendor is
  found active and the batch fetch answers, it is rejected with "Some menu items could not
  be found.", also when the item exists, is active and is available: the fetch returns one
  row per distinct id (ids are the primary key of the menu table), fewer rows than lines.
\<close>

theorem createOrder_duplicate_lines_rejected:
  assumes pk: "distinct (map m_id (menu_items w))"
  shows "(\<not> distinct (map menuItemId (items input)) \<longrightarrow>
           (\<exists>err. fst (createOrder e w input) = Inl err)
         \<and> (\<forall>session w1 vendor.
               ensureSession e w (sessionId input) = (Inr session, w1)
             \<and> \<not> faults e LoadVendor
             \<and> single_row (filter (\<lambda>v. v_id v = vendorId input) (vendors w)) = Some vendor
             \<and> v_is_active vendor \<and> \<not> faults e FetchMenuItems
             \<longrightarrow> createOrder e w input = (Inl MenuItemsNotFound, w1)))
       \<and> (\<not> distinct (map menuItemId (b_items body)) \<longrightarrow>
           (\<exists>err. fst (POST_orders_create e w body) = Inl err)
         \<and> (\<forall>session w1 vendor.
               b_vendorId body \<noteq> []
             \<and> ensureSession e w (b_sessionId body) = (Inr session, w1)
             \<and> \<not> faults e LoadVendor
             \<and> single_row (filter (\<lambda>v. v_id v = b_vendorId body) (vendors w)) = Some vendor
             \<and> v_is_active vendor \<and> \<not> faults e FetchMenuItems
             \<longrightarrow> POST_orders_create e w body = (Inl (400, MenuItemsNotFound), w1)))"
proof (intro conjI impI allI)
  assume dup: "\<not> distinct (map menuItemId (items input))"
  note fewer = duplicate_ids_fetch_fewer [OF pk dup]
  show "\<exists>err. fst (createOrder e w input) = Inl err"
  proof (cases "fst (createOrder e w input)")
    case (Inl err)
    then show ?thesis by blast
  next
    case (Inr res)
    then have "createOrder e w input = (Inr res, snd (createOrder e w input))"
      by (simp add: prod_eq_iff)
    from createOrder_accepted [OF this] fewer show ?thesis by auto
  qed
  fix session w1 vendor
  assume ok: "ensureSession e w (sessionId input) = (Inr session, w1)
             \<and> \<not> faults e LoadVendor
             \<and> single_row (filter (\<lambda>v. v_id v = vendorId input) (vendors w)) = Some vendor
             \<and> v_is_active vendor \<and> \<not> faults e FetchMenuItems"
  then have es: "ensureSession e w (sessionId input) = (Inr session, w1)" by simp
  have ne: "items input \<noteq> []" using dup by auto
  show "createOrder e w input = (Inl MenuItemsNotFound, w1)"
    using ok ne fewer ensureSession_tables [OF es]
    by (simp add: createOrder_def Let_def)
next
  assume dup: "\<not> distinct (map menuItemId (b_items body))"
  note fewer = duplicate_ids_fetch_fewer [OF pk dup]
  show "\<exists>err. fst (POST_orders_create e w body) = Inl err"
  proof (cases "fst (POST_orders_create e w body)")
    case (Inl err)
    then show ?thesis by blast
  next
    case (Inr res)
    then have "POST_orders_create e w body = (Inr res, snd (POST_orders_create e w body))"
      by (simp add: prod_eq_iff)
    from POST_orders_create_accepted [OF this] fewer show ?thesis by auto
  qed
  fix session w1 vendor
  assume ok: "b_vendorId body \<noteq> []
             \<and> ensureSession e w (b_sessionId body) = (Inr session, w1)
             \<and> \<not> faults e LoadVendor
             \<and> single_row (filter (\<lambda>v. v_id v = b_vendorId body) (vendors w)) = Some vendor
             \<and> v_is_active vendor \<and> \<not> faults e FetchMenuItems"
  then have es: "ensureSession e w (b_sessionId body) = (Inr session, w1)" by simp
  have ne: "b_items body \<noteq> []" using dup by auto
  show "POST_orders_create e w body = (Inl (400, MenuItemsNotFound), w1)"
    using ok ne fewer ensureSession_tables [OF es]
    by (simp add: POST_orders_create_def Let_def)
qed

text \<open>Witness for C10: item A, on the menu, active and available, on two lines.\<close>

theorem createOrder_duplicate_lines_rejected_witness:
  "distinct (map m_id (menu_items world0))
   \<and> \<not> distinct (map menuItemId (items cart_twice))
   \<and> find (\<lambda>m. m_id m = ''a'') (menu_items world0) =
       Some \<lparr>m_id = ''a'', m_name = ''Item A'', m_price_cents = 1000,
             m_is_active = True, m_is_available = True\<rparr>
   \<and> createOrder env0 world0 cart_twice = (Inl MenuItemsNotFound, world0)
   \<and> POST_orders_create env0 world0 (body0\<lparr>b_items := items cart_twice\<rparr>)
       = (Inl (400, MenuItemsNotFound), world0)"
proof -
  have pk: "distinct (map m_id (menu_items world0))" by (simp add: world0_def)
  have dup: "\<not> distinct (map menuItemId (items cart_twice))"
    "\<not> distinct (map menuItemId (b_items (body0\<lparr>b_items := items cart_twice\<rparr>)))"
    by (simp_all add: cart_twice_def)
  have es: "ensureSession env0 world0 (Some ''s1'') =
      (Inr \<lparr>s_id = ''s1'', s_ticket_code = ''WL-1000'', s_status = Open, s_created_at = 0\<rparr>,
       world0)"
    by (simp add: ensureSession_def single_row_def store_defs)
  have v: "single_row (filter (\<lambda>v. v_id v = ''v1'') (vendors world0)) =
      Some \<lparr>v_id = ''v1'', v_name = ''Grill'', v_is_active = True\<rparr>"
    by (simp add: single_row_def world0_def)
  have nf: "\<not> faults env0 LoadVendor" "\<not> faults env0 FetchMenuItems"
    by (simp_all add: env0_def)
  have f: "sessionId cart_twice = Some ''s1''" "vendorId cart_twice = ''v1''"
    "b_sessionId (body0\<lparr>b_items := items cart_twice\<rparr>) = Some ''s1''"
    "b_vendorId (body0\<lparr>b_items := items cart_twice\<rparr>) = ''v1''"
    by (simp_all add: cart_twice_def cart0_def body0_def)
  note t = createOrder_duplicate_lines_rejected
             [OF pk, of cart_twice env0 "body0\<lparr>b_items := items cart_twice\<rparr>"]
  have a: "createOrder env0 world0 cart_twice = (Inl MenuItemsNotFound, world0)"
    using t [THEN conjunct1, rule_format, OF dup(1), THEN conjunct2, rule_format,
             of _ world0 _] es v nf
    by (simp add: f)
  have b: "POST_orders_create env0 world0 (body0\<lparr>b_items := items cart_twice\<rparr>)
       = (Inl (400, MenuItemsNotFound), world0)"
    using t [THEN conjunct2, rule_format, OF dup(2), THEN conjunct2, rule_format,
             of _ world0 _] es v nf
    by (simp add: f)
  show ?thesis
    using pk dup(1) a b by (simp add: world0_def)
qed

text \<open>
  C4, evaluated where the code departs from it. With the order code MS-1000 taken and
  \<^verbatim>\<open>Math.random()\<close> returning 0, \<open>createOrder\<close> draws one code, fails on the collision
  with "Failed to create order." and draws no second one, although the next code, MS-5500,
  is free. The ticket route on the same draws, with the ticket code WL-1000 taken, draws
  again and succeeds with WL-5500; when every insert fails it gives up after five inserts
  (six draws) with status 500.
\<close>

theorem createOrder_no_collision_retry:
  "createOrder env0 world_taken cart0 = (Inl FailedToCreateOrder, world_taken\<lparr>draws := 1\<rparr>)
   \<and> generateSimpleCode ''MS'' (rnd env0 0) = ''MS-1000''
   \<and> generateSimpleCode ''MS'' (rnd env0 1) = ''MS-5500''
   \<and> ''MS-5500'' \<notin> set (map o_order_code (orders world_taken))
   \<and> fst (POST_sessions_start env0 world0) =
       Inr \<lparr>s_id = ''id-0'', s_ticket_code = ''WL-5500'', s_status = Open,
            s_created_at = 1000\<rparr>
   \<and> draws (snd (POST_sessions_start env0 world0)) = 2
   \<and> POST_sessions_start (env0\<lparr>faults := (\<lambda>c. c = InsertSession)\<rparr>) world0 =
       (Inl (500, FailedAfterRetries), world0\<lparr>draws := 6\<rparr>)"
proof -
  have five: "(5::nat) = Suc (Suc (Suc (Suc (Suc 0))))" by simp
  have start: "POST_sessions_start e w =
     sessions_start_loop e (Suc (Suc (Suc (Suc (Suc 0)))))
       (generateSimpleCode ''WL'' (rnd e (draws w))) (w\<lparr>draws := Suc (draws w)\<rparr>)" for e w
    unfolding POST_sessions_start_def five ..
  have a: "createOrder env0 world_taken cart0 =
      (Inl FailedToCreateOrder, world_taken\<lparr>draws := 1\<rparr>)"
    by (simp add: create_defs store_defs world_taken_def)
  have b: "generateSimpleCode ''MS'' (rnd env0 0) = ''MS-1000''"
    "generateSimpleCode ''MS'' (rnd env0 1) = ''MS-5500''"
    "''MS-5500'' \<notin> set (map o_order_code (orders world_taken))"
    by (simp_all add: generateSimpleCode_def show_nat.simps digit_char_def floor_numeral_div
          store_defs world_taken_def)
  have c: "POST_sessions_start env0 world0 =
      (Inr \<lparr>s_id = ''id-0'', s_ticket_code = ''WL-5500'', s_status = Open,
            s_created_at = 1000\<rparr>,
       world0\<lparr>order_sessions := order_sessions world0 @
           [\<lparr>s_id = ''id-0'', s_ticket_code = ''WL-5500'', s_status = Open,
             s_created_at = 1000\<rparr>], ids := 1, draws := 2\<rparr>)"
    by (simp add: start insertSession_def generateSimpleCode_def show_nat.simps digit_char_def
          floor_numeral_div Let_def store_defs)
  have d: "POST_sessions_start (env0\<lparr>faults := (\<lambda>c. c = InsertSession)\<rparr>) world0 =
       (Inl (500, FailedAfterRetries), world0\<lparr>draws := 6\<rparr>)"
    by (simp add: start insertSession_def store_defs)
  show ?thesis
    using a b d by (simp add: c)
qed

text \<open>Witness for C4: the single draw of \<open>createOrder\<close> and the retry of the ticket
  route, read off the evaluation above.\<close>

theorem createOrder_no_collision_retry_witness:
  "fst (createOrder env0 world_taken cart0) = Inl FailedToCreateOrder
   \<and> draws (snd (createOrder env0 world_taken cart0)) = 1
   \<and> s_ticket_code (projr (fst (POST_sessions_start env0 world0))) = ''WL-5500''
   \<and> draws (snd (POST_sessions_start env0 world0)) = 2"
  using createOrder_no_collision_retry by simp

section \<open>Properties of the aggregation engine\<close>

lemma fold_add_sum_list: "fold (\<lambda>b a. a + b) xs (a0 :: rat) = a0 + sum_list xs"
  by (induction xs arbitrary: a0) (simp_all add: add.assoc)

lemma dayTotals_fields:
  "dt_totalCents (dayTotals rows acc)
     = dt_totalCents acc + (\<Sum>row\<leftarrow>rows. orNull (o_total_cents row))"
  "dt_taxCentsFromDb (dayTotals rows acc)
     = dt_taxCentsFromDb acc + (\<Sum>row\<leftarrow>rows. orNull (o_tax_cents row))"
  "dt_anyNonZeroTax (dayTotals rows acc)
     \<longleftrightarrow> dt_anyNonZeroTax acc \<or> (\<exists>row \<in> set rows. orNull (o_tax_cents row) > 0)"
  "dt_activeOrders (dayTotals rows acc)
     = dt_activeOrders acc + length (filter (\<lambda>row. o_status row \<noteq> Collected) rows)"
  "dt_prepDurationsMinutes (dayTotals rows acc)
     = dt_prepDurationsMinutes acc @ List.map_filter minutes_since_created rows"
proof (induction rows arbitrary: acc)
  case Nil
  { case 1 show ?case by simp }
  { case 2 show ?case by simp }
  { case 3 show ?case by simp }
  { case 4 show ?case by simp }
  { case 5 show ?case by (simp add: List.map_filter_simps) }
next
  case (Cons row rows)
  { case 1 show ?case by (simp add: Cons.IH Let_def split: option.split) }
  { case 2 show ?case by (simp add: Cons.IH Let_def split: option.split) }
  { case 3 show ?case by (auto simp add: Cons.IH Let_def split: option.split) }
  { case 4 show ?case by (simp add: Cons.IH Let_def split: option.split) }
  { case 5 show ?case
      by (simp add: Cons.IH Let_def List.map_filter_simps minutes_since_created_def
            split: option.split) }
qed


lemma sum_list_kwacha:
  "of_int (\<Sum>row\<leftarrow>rows. orNull (o_total_cents row)) / 100 = (\<Sum>row\<leftarrow>rows. kwacha row)"
  by (induction rows) (simp_all add: kwacha_def add_divide_distrib)






lemma vendorSales_add_unknown:
  "vendorSales_add (map unknown_vendor acc) vid ''Unknown vendor'' incKw
     = map unknown_vendor (vendorSales_add acc vid name incKw)"
  by (induction acc) (simp_all add: unknown_vendor_def)

lemma vendorSalesMap_unknown:
  "vendorSalesMap [] rows (map unknown_vendor acc)
     = map unknown_vendor (vendorSalesMap names rows acc)"
proof (induction rows arbitrary: acc)
  case Nil
  show ?case by simp
next
  case (Cons row rows)
  have step: "vendorSalesMap [] rows
        (vendorSales_add (map unknown_vendor acc) vid ''Unknown vendor'' inc)
      = map unknown_vendor (vendorSalesMap names rows (vendorSales_add acc vid nm inc))"
    for vid nm inc
    unfolding vendorSales_add_unknown [where name = nm] by (rule Cons.IH)
  show ?case
    by (simp add: Let_def step Cons.IH split: option.split)
qed

lemma insort_key_map_same:
  assumes "\<And>y. k (f y) = k y"
  shows "insort_key k (f x) (map f xs) = map f (insort_key k x xs)"
  using assms by (induction xs) simp_all

lemma sort_key_map_same:
  assumes "\<And>y. k (f y) = k y"
  shows "sort_key k (map f xs) = map f (sort_key k xs)"
  using assms by (induction xs) (simp_all add: insort_key_map_same)

lemma sortByTotalDesc_unknown:
  "sortByTotalDesc (map unknown_vendor vs) = map unknown_vendor (sortByTotalDesc vs)"
  unfolding sortByTotalDesc_def
  by (rule sort_key_map_same) (simp add: unknown_vendor_def)

lemma VendorSale_copy:
  "map (\<lambda>v. \<lparr>vs_vendorId = vs_vendorId v, vs_vendorName = vs_vendorName v,
                vs_total = vs_total v\<rparr>) vs = (vs :: VendorSale list)"
  by (induction vs) simp_all

lemma topVendor_copy:
  "(case vs of [] \<Rightarrow> None
    | v # _ \<Rightarrow> Some \<lparr>vs_vendorId = vs_vendorId v, vs_vendorName = vs_vendorName v,
                       vs_total = vs_total v\<rparr>)
   = (case vs of [] \<Rightarrow> None | v # _ \<Rightarrow> Some (v :: VendorSale))"
  by (cases vs) simp_all

text \<open>The summary, field by field, when the orders load succeeds.\<close>

lemma getAdminSummary_fields:
  assumes ok: "\<not> faults e LoadOrders"
  shows "\<exists>s. getAdminSummary e w date = Inr s
     \<and> ordersToday s = length (dayOrders e w date)
     \<and> revenueToday s = (\<Sum>row\<leftarrow>dayOrders e w date. kwacha row)
     \<and> activeOrders s = length (filter (\<lambda>row. o_status row \<noteq> Collected) (dayOrders e w date))
     \<and> avgPrepMinutesToday s = mean (List.map_filter minutes_since_created (dayOrders e w date))
     \<and> vendorSalesToday s
         = sortByTotalDesc (vendorSalesMap (vendorNameById_of e w (dayOrders e w date))
                              (dayOrders e w date) [])
     \<and> topVendor s = (case vendorSalesToday s of [] \<Rightarrow> None | v # _ \<Rightarrow> Some v)
     \<and> latestOrders s =
          map (\<lambda>row. \<lparr>lo_id = o_id row, lo_code = o_order_code row,
                       lo_tableNumber = None, lo_status = o_status row,
                       lo_totalAmount = kwacha row,
                       lo_createdAt = o_created_at row\<rparr>)
              (take 40 (dayOrders e w date))"
  using ok
  by (simp add: getAdminSummary_def dayOrders_def vendorNameById_of_def Let_def
        case_prod_beta dayTotals_fields fold_add_sum_list mean_def sum_list_kwacha
        VendorSale_copy topVendor_copy kwacha_def [abs_def])

lemma map_filter_empty_iff: "List.map_filter f xs = [] \<longleftrightarrow> (\<forall>x \<in> set xs. f x = None)"
  by (induction xs) (auto simp: List.map_filter_simps split: option.split)

lemma mean_None_iff: "mean ds = None \<longleftrightarrow> ds = []"
  by (simp add: mean_def)

lemma loadOrders_empty:
  assumes "\<forall>row \<in> set (orders w). \<forall>c. o_created_at row = Some c \<longrightarrow> \<not> (a \<le> c \<and> c \<le> b)"
  shows "loadOrders w a b = []"
proof -
  have "filter (\<lambda>row. case o_created_at row of Some c \<Rightarrow> a \<le> c \<and> c \<le> b | None \<Rightarrow> False)
          (orders w) = []"
    using assms by (auto simp: filter_empty_conv split: option.splits)
  then show ?thesis by (simp add: loadOrders_def)
qed

text \<open>
  C8. When the orders load answers and no order of the store was created within the
  bounds of the day, the summary is exactly the zero-valued one: all counts 0, no average,
  empty lists, no top vendor and no top item.
\<close>

theorem summary_of_empty_day:
  assumes "\<not> faults e LoadOrders"
    and "\<forall>row \<in> set (orders w). \<forall>c. o_created_at row = Some c \<longrightarrow>
           \<not> (fst (getDayBounds (now e) date) \<le> c \<and> c \<le> snd (getDayBounds (now e) date))"
  shows "getAdminSummary e w date = Inr zero_summary"
  using assms(1) loadOrders_empty [OF assms(2)]
  by (simp add: getAdminSummary_def Let_def case_prod_beta zero_summary_def vendorIds_of_def
        sortByTotalDesc_def DEFAULT_VAT_RATE_def)

text \<open>
  C6, amended. The summary's \<open>avgPrepMinutesToday\<close> is the arithmetic mean, in minutes, of
  \<open>ready_at - created_at\<close> over exactly those orders of the day where both timestamps are
  present and \<open>ready_at > created_at\<close>, and null when there is no such order;
  \<open>preparing_at\<close> is not read.
\<close>

theorem avgPrepMinutes_from_created_at:
  assumes "\<not> faults e LoadOrders"
  shows "\<exists>s. getAdminSummary e w date = Inr s
     \<and> avgPrepMinutesToday s
         = mean (List.map_filter minutes_since_created (dayOrders e w date))
     \<and> (avgPrepMinutesToday s = None
          \<longleftrightarrow> (\<forall>row \<in> set (dayOrders e w date). minutes_since_created row = None))"
proof -
  from getAdminSummary_fields [OF assms, of w date] obtain s where
    "getAdminSummary e w date = Inr s"
    "avgPrepMinutesToday s = mean (List.map_filter minutes_since_created (dayOrders e w date))"
    by blast
  then show ?thesis
    by (auto simp: mean_None_iff map_filter_empty_iff)
qed





lemma case_map_head:
  "map_option f (case xs of [] \<Rightarrow> None | v # _ \<Rightarrow> Some v)
     = (case map f xs of [] \<Rightarrow> None | v # _ \<Rightarrow> Some v)"
  by (cases xs) simp_all

lemma vendorSales_unknown:
  "map unknown_vendor (sortByTotalDesc (vendorSalesMap names rows []))
     = sortByTotalDesc (vendorSalesMap [] rows [])"
  using vendorSalesMap_unknown [of rows "[]" names]
  by (simp add: sortByTotalDesc_unknown)

text \<open>
  C5, amended. When the orders load fails, \<open>getAdminSummary\<close> throws "Failed to load
  orders for admin summary.". When only the vendor-name load fails, the summary is the
  one of the fault-free run except that every vendor name, in the vendor sales and in the
  top vendor, is "Unknown vendor": vendors, totals and order are unchanged. When only the
  order-item load fails, the summary is the one of the fault-free run with the top item
  null.
\<close>

theorem summary_load_failures:
  "(faults e LoadOrders \<longrightarrow> getAdminSummary e w date = Inl FailedToLoadOrders)
   \<and> (\<not> faults e LoadOrders \<and> faults e LoadVendorNames \<and> \<not> faults e LoadOrderItems \<longrightarrow>
        getAdminSummary e w date =
          map_sum id
            (\<lambda>s. s\<lparr>vendorSalesToday := map unknown_vendor (vendorSalesToday s),
                    topVendor := map_option unknown_vendor (topVendor s)\<rparr>)
            (getAdminSummary (no_faults e) w date))
   \<and> (\<not> faults e LoadOrders \<and> \<not> faults e LoadVendorNames \<and> faults e LoadOrderItems \<longrightarrow>
        getAdminSummary e w date =
          map_sum id (\<lambda>s. s\<lparr>topItem := None\<rparr>) (getAdminSummary (no_faults e) w date))"
proof (intro conjI impI)
  assume "faults e LoadOrders"
  then show "getAdminSummary e w date = Inl FailedToLoadOrders"
    by (simp add: getAdminSummary_def case_prod_beta)
next
  assume "\<not> faults e LoadOrders \<and> faults e LoadVendorNames \<and> \<not> faults e LoadOrderItems"
  then show "getAdminSummary e w date =
          map_sum id
            (\<lambda>s. s\<lparr>vendorSalesToday := map unknown_vendor (vendorSalesToday s),
                    topVendor := map_option unknown_vendor (topVendor s)\<rparr>)
            (getAdminSummary (no_faults e) w date)"
    by (simp add: getAdminSummary_def no_faults_def Let_def case_prod_beta
          VendorSale_copy topVendor_copy case_map_head vendorSales_unknown)
next
  assume "\<not> faults e LoadOrders \<and> \<not> faults e LoadVendorNames \<and> faults e LoadOrderItems"
  then show "getAdminSummary e w date =
          map_sum id (\<lambda>s. s\<lparr>topItem := None\<rparr>) (getAdminSummary (no_faults e) w date)"
    by (simp add: getAdminSummary_def no_faults_def Let_def case_prod_beta)
qed

lemmas summary_defs = getAdminSummary_def getDayBounds_def loadOrders_def created_key_def
  vendorIds_of_def vendorNames_def Let_def orNull_def sortByTotalDesc_def DEFAULT_VAT_RATE_def
  world2_def world_novendor_def List.map_filter_simps

lemma summary_world2:
  "getAdminSummary env0 world2 (Some 0) =
     Inr \<lparr>ordersToday = 3, revenueToday = 40, taxToday = 69 / 20, activeOrders = 2,
          avgPrepMinutesToday = Some 2,
          vendorSalesToday =
            [\<lparr>vs_vendorId = ''v1'', vs_vendorName = ''Grill'', vs_total = 35\<rparr>,
             \<lparr>vs_vendorId = ''v2'', vs_vendorName = ''Noodles'', vs_total = 5\<rparr>],
          topVendor = Some \<lparr>vs_vendorId = ''v1'', vs_vendorName = ''Grill'', vs_total = 35\<rparr>,
          topItem = Some \<lparr>ti_name = ''Item A'', ti_quantity = 3\<rparr>,
          latestOrders =
            [\<lparr>lo_id = ''o3'', lo_code = ''MS-3333'', lo_tableNumber = None,
              lo_status = Collected, lo_totalAmount = 5, lo_createdAt = Some 3000\<rparr>,
             \<lparr>lo_id = ''o2'', lo_code = ''MS-2222'', lo_tableNumber = None,
              lo_status = Ready, lo_totalAmount = 10, lo_createdAt = Some 2000\<rparr>,
             \<lparr>lo_id = ''o1'', lo_code = ''MS-1111'', lo_tableNumber = None,
              lo_status = Preparing, lo_totalAmount = 25, lo_createdAt = Some 1000\<rparr>]\<rparr>"
  by (simp add: summary_defs store_defs)

lemma dayOrders_world2:
  "dayOrders env0 world2 (Some 0) =
     [order3\<lparr>o_vendor_id := Some ''v2'', o_preparing_at := Some 33000\<rparr>, order2, order1]"
  by (simp add: dayOrders_def getDayBounds_def loadOrders_def created_key_def world2_def
        store_defs)

lemma no_faults_envs:
  "no_faults env_orders_fail = env0" "no_faults env_vendors_fail = env0"
  "no_faults env_items_fail = env0"
  by (simp_all add: no_faults_def env_orders_fail_def env_vendors_fail_def env_items_fail_def
        env0_def)

text \<open>
  Counterexample to C5: with the orders load failing the result is the error, not the
  zero-valued summary; with the vendor-name load failing the vendor sales and the top
  vendor are not empty.
\<close>

theorem summary_load_failures_counterexample:
  "getAdminSummary env_orders_fail world2 (Some 0) = Inl FailedToLoadOrders
   \<and> getAdminSummary env_orders_fail world2 (Some 0) \<noteq> Inr zero_summary
   \<and> vendorSalesToday (projr (getAdminSummary env_vendors_fail world2 (Some 0))) =
       [\<lparr>vs_vendorId = ''v1'', vs_vendorName = ''Unknown vendor'', vs_total = 35\<rparr>,
        \<lparr>vs_vendorId = ''v2'', vs_vendorName = ''Unknown vendor'', vs_total = 5\<rparr>]
   \<and> topVendor (projr (getAdminSummary env_vendors_fail world2 (Some 0))) =
       Some \<lparr>vs_vendorId = ''v1'', vs_vendorName = ''Unknown vendor'', vs_total = 35\<rparr>"
  by (simp add: summary_defs store_defs env_orders_fail_def env_vendors_fail_def)

text \<open>Witness for the amended C5, one failing load at a time.\<close>

theorem summary_load_failures_witness:
  "faults env_orders_fail LoadOrders
   \<and> getAdminSummary env_orders_fail world2 (Some 0) = Inl FailedToLoadOrders
   \<and> faults env_vendors_fail LoadVendorNames
   \<and> map vs_vendorName
        (vendorSalesToday (projr (getAdminSummary env_vendors_fail world2 (Some 0))))
       = [''Unknown vendor'', ''Unknown vendor'']
   \<and> map vs_total
        (vendorSalesToday (projr (getAdminSummary env_vendors_fail world2 (Some 0))))
       = [35, 5]
   \<and> revenueToday (projr (getAdminSummary env_vendors_fail world2 (Some 0))) = 40
   \<and> faults env_items_fail LoadOrderItems
   \<and> topItem (projr (getAdminSummary env_items_fail world2 (Some 0))) = None
   \<and> topVendor (projr (getAdminSummary env_items_fail world2 (Some 0))) =
       Some \<lparr>vs_vendorId = ''v1'', vs_vendorName = ''Grill'', vs_total = 35\<rparr>"
proof -
  have f: "faults env_orders_fail LoadOrders"
    "\<not> faults env_vendors_fail LoadOrders \<and> faults env_vendors_fail LoadVendorNames
       \<and> \<not> faults env_vendors_fail LoadOrderItems"
    "\<not> faults env_items_fail LoadOrders \<and> \<not> faults env_items_fail LoadVendorNames
       \<and> faults env_items_fail LoadOrderItems"
    by (simp_all add: env_orders_fail_def env_vendors_fail_def env_items_fail_def)
  note t1 = summary_load_failures [of env_orders_fail world2 "Some 0",
              THEN conjunct1, rule_format, OF f(1)]
  note t2 = summary_load_failures [of env_vendors_fail world2 "Some 0",
              THEN conjunct2, THEN conjunct1, rule_format, OF f(2)]
  note t3 = summary_load_failures [of env_items_fail world2 "Some 0",
              THEN conjunct2, THEN conjunct2, rule_format, OF f(3)]
  show ?thesis
    using f
    by (simp add: t1 t2 t3 no_faults_envs summary_world2 unknown_vendor_def)
qed

text \<open>
  Counterexample to C6: of the three orders of the day only the third has a
  \<open>preparing_at\<close>, half a minute before \<open>ready_at\<close>, so the mean of
  \<open>ready_at - preparing_at\<close> is 1/2; the summary says 2, the mean of 1 and 3 minutes
  since creation.
\<close>

theorem avgPrepMinutes_counterexample:
  "avgPrepMinutesToday (projr (getAdminSummary env0 world2 (Some 0))) = Some 2
   \<and> spec_avgPrepMinutes (dayOrders env0 world2 (Some 0)) = Some (1 / 2)"
  unfolding summary_world2 dayOrders_world2
  by (simp add: spec_avgPrepMinutes_def spec_prep_minutes_def mean_def List.map_filter_simps
        order1_def order2_def order3_def)

text \<open>Witness for the amended C6.\<close>

theorem avgPrepMinutes_from_created_at_witness:
  "\<not> faults env0 LoadOrders
   \<and> List.map_filter minutes_since_created (dayOrders env0 world2 (Some 0)) = [1, 3]
   \<and> avgPrepMinutesToday (projr (getAdminSummary env0 world2 (Some 0))) = Some 2"
proof -
  have nf: "\<not> faults env0 LoadOrders" by (simp add: env0_def)
  have ds: "List.map_filter minutes_since_created (dayOrders env0 world2 (Some 0)) = [1, 3]"
    unfolding dayOrders_world2
    by (simp add: minutes_since_created_def List.map_filter_simps
          order1_def order2_def order3_def)
  from avgPrepMinutes_from_created_at [OF nf, of world2 "Some 0"] nf ds
  show ?thesis
    by (auto simp: mean_def)
qed










text \<open>Witness for C8: day 5, on which the store has no order.\<close>

theorem summary_of_empty_day_witness:
  "\<not> faults env0 LoadOrders
   \<and> getDayBounds (now env0) (Some 5) = (432000000, 518399999)
   \<and> map o_created_at (orders world2) = [Some 1000, Some 2000, Some 3000]
   \<and> getAdminSummary env0 world2 (Some 5) = Inr zero_summary"
proof -
  have nf: "\<not> faults env0 LoadOrders" by (simp add: env0_def)
  have b: "getDayBounds (now env0) (Some 5) = (432000000, 518399999)"
    by (simp add: getDayBounds_def)
  have c: "map o_created_at (orders world2) = [Some 1000, Some 2000, Some 3000]"
    by (simp add: world2_def store_defs)
  have out: "\<forall>row \<in> set (orders world2). \<forall>c. o_created_at row = Some c \<longrightarrow>
       \<not> (fst (getDayBounds (now env0) (Some 5)) \<le> c
          \<and> c \<le> snd (getDayBounds (now env0) (Some 5)))"
    unfolding b by (simp add: world2_def store_defs)
  from summary_of_empty_day [OF nf out] nf b c show ?thesis by simp
qed

end